theory Spec2Isabelle
  imports Complex_Main
begin

section \<open>Data model\<close>

text \<open>
  Values thrown by the code: an \<open>Error\<close> object with its message, or any other thrown
  value (the error objects that the database client returns and the code rethrows).
\<close>

datatype exn = Error string | Thrown string

text \<open>\<open>interface Citation { text: string; url: string; title?: string }\<close> (youcom.ts).\<close>

record citation =
  cit_text :: string
  url :: string
  title :: "string option"

section \<open>Citation deduplication (rag.ts, lines 159-162)\<close>

text \<open>
  A JavaScript \<open>Map\<close> keeps its entries in insertion order of the keys. \<open>set\<close> on a
  key that is present overwrites the value in place; on a new key it appends the entry.
  Keys are compared exactly (strings: case-sensitive).
\<close>

fun Map_set :: "'k \<Rightarrow> 'v \<Rightarrow> ('k \<times> 'v) list \<Rightarrow> ('k \<times> 'v) list" where
  "Map_set k v [] = [(k, v)]"
| "Map_set k v ((k', v') # m) = (if k' = k then (k, v) # m else (k', v') # Map_set k v m)"

text \<open>\<open>new Map(entries)\<close>: the entries are set one after the other, in iteration order.\<close>

definition new_Map :: "('k \<times> 'v) list \<Rightarrow> ('k \<times> 'v) list" where
  "new_Map entries = foldl (\<lambda>m (k, v). Map_set k v m) [] entries"

definition Map_values :: "('k \<times> 'v) list \<Rightarrow> 'v list" where
  "Map_values m = map snd m"

text \<open>
  \<open>Array.from(new Map(allCitations.map((c) => [c.url, c])).values())\<close>
\<close>

definition uniqueCitations :: "citation list \<Rightarrow> citation list" where
  "uniqueCitations allCitations =
     Map_values (new_Map (map (\<lambda>c. (url c, c)) allCitations))"

text \<open>
  The same loop started from any map \<open>m\<close>, with the key taken from the value by
  \<open>f\<close>: the form in which the facts about \<open>new_Map\<close> are proved by induction.
\<close>

definition set_all :: "('v \<Rightarrow> 'k) \<Rightarrow> ('k \<times> 'v) list \<Rightarrow> 'v list \<Rightarrow> ('k \<times> 'v) list" where
  "set_all f m vs = foldl (\<lambda>m (k, v). Map_set k v m) m (map (\<lambda>v. (f v, v)) vs)"

section \<open>Strings and JavaScript values\<close>

text \<open>
  Strings are lists of characters; \<open>nl\<close> is the line feed written \<open>\n\<close> in the source.
\<close>

definition nl :: string where
  "nl = [CHR 0x0A]"

text \<open>The decimal digits of a number interpolated into a template literal.\<close>

definition digit :: "nat \<Rightarrow> char" where
  "digit d = ''0123456789'' ! d"

function string_of_nat :: "nat \<Rightarrow> string" where
  "string_of_nat n =
     (if n < 10 then [digit n] else string_of_nat (n div 10) @ [digit (n mod 10)])"
  by pat_completeness auto
termination
  by (relation "measure id") auto

text \<open>\<open>xs.join(sep)\<close>\<close>

fun join :: "string \<Rightarrow> string list \<Rightarrow> string" where
  "join sep [] = []"
| "join sep [x] = x"
| "join sep (x # y # ys) = x @ sep @ join sep (y # ys)"

text \<open>
  \<open>a || b\<close>: \<open>a\<close> when it is truthy, otherwise \<open>b\<close>. A string is truthy when it
  is not empty; a property that is absent (\<open>undefined\<close>, here \<open>None\<close>) is falsy.
\<close>

definition str_or :: "string \<Rightarrow> string \<Rightarrow> string" where
  "str_or a b = (if a \<noteq> [] then a else b)"

definition truthy_str :: "string option \<Rightarrow> bool" where
  "truthy_str a = (case a of None \<Rightarrow> False | Some s \<Rightarrow> s \<noteq> [])"

definition js_or :: "string option \<Rightarrow> string option \<Rightarrow> string option" where
  "js_or a b = (if truthy_str a then a else b)"

definition or_str :: "string option \<Rightarrow> string \<Rightarrow> string" where
  "or_str a d = (case a of None \<Rightarrow> d | Some s \<Rightarrow> if s \<noteq> [] then s else d)"

text \<open>
  \<open>s.startsWith(p)\<close>, \<open>s.split(c)[0]\<close> and \<open>s.trim()\<close>. A character stands
  for a code unit below 256; of these, the white space and line terminators that
  \<open>trim\<close> strips are 9 to 13, 32 and 160 (the no-break space).
\<close>

definition startsWith :: "string \<Rightarrow> string \<Rightarrow> bool" where
  "startsWith s p = (take (length p) s = p)"

definition split0 :: "char \<Rightarrow> string \<Rightarrow> string" where
  "split0 c s = takeWhile (\<lambda>x. x \<noteq> c) s"

definition is_whitespace :: "char \<Rightarrow> bool" where
  "is_whitespace c =
     (c \<in> set [CHR 0x09, CHR 0x0A, CHR 0x0B, CHR 0x0C, CHR 0x0D, CHR 0x20, CHR 0xA0])"

definition trim :: "string \<Rightarrow> string" where
  "trim s = rev (dropWhile is_whitespace (rev (dropWhile is_whitespace s)))"

text \<open>\<open>xs[i]\<close>: \<open>undefined\<close> (here \<open>None\<close>) when \<open>i\<close> is out of range.\<close>

definition at_index :: "'a list \<Rightarrow> nat \<Rightarrow> 'a option" where
  "at_index xs i = (if i < length xs then Some (xs ! i) else None)"

text \<open>
  JSON values, as \<open>JSON.parse\<close> and \<open>request.json()\<close> produce them. An object keeps
  its properties in insertion order; reading a property finds its entry, assigning one
  overwrites the entry in place or appends it (the behaviour of \<open>Map_set\<close>).
\<close>

datatype json =
    JNull
  | JBool bool
  | JNum real
  | JStr string
  | JArr "json list"
  | JObj "(string \<times> json) list"

type_synonym obj = "(string \<times> json) list"

definition get_prop :: "obj \<Rightarrow> string \<Rightarrow> json option" where
  "get_prop ob k = map_of ob k"

definition has_prop :: "obj \<Rightarrow> string \<Rightarrow> bool" where
  "has_prop ob k = (get_prop ob k \<noteq> None)"

definition set_prop :: "string \<Rightarrow> json \<Rightarrow> obj \<Rightarrow> obj" where
  "set_prop k v ob = Map_set k v ob"

text \<open>Truthiness of a JSON value, and its \<open>length\<close> property where it has one.\<close>

fun truthy :: "json \<Rightarrow> bool" where
  "truthy JNull = False"
| "truthy (JBool b) = b"
| "truthy (JNum r) = (r \<noteq> 0)"
| "truthy (JStr s) = (s \<noteq> [])"
| "truthy (JArr xs) = True"
| "truthy (JObj ob) = True"

fun js_length :: "json \<Rightarrow> json option" where
  "js_length (JStr s) = Some (JNum (real (length s)))"
| "js_length (JArr xs) = Some (JNum (real (length xs)))"
| "js_length (JObj ob) = map_of ob ''length''"
| "js_length JNull = None"
| "js_length (JBool b) = None"
| "js_length (JNum r) = None"

section \<open>Company profile (scraper.ts)\<close>

record page_metadata =
  meta_title :: "string option"
  meta_keywords :: "string option"
  about :: "string option"

record ScrapedCompanyData =
  name :: string
  description :: string
  domain :: string
  metadata :: "page_metadata option"

text \<open>
  What the selectors of \<open>scrapeCompany\<close> read from the fetched document: the text of
  \<open>title\<close>, the \<open>content\<close> attributes of the three \<open>meta\<close> elements (absent:
  \<open>None\<close>), for each entry of \<open>aboutSelectors\<close> in order the text of its first match
  (\<open>None\<close> when nothing matches), and the text of the first paragraph of \<open>main\<close>,
  \<open>article\<close> and \<open>body\<close> and of the first \<open>h1\<close> (empty when nothing matches).
\<close>

record page =
  title_text :: string
  meta_description :: "string option"
  og_description :: "string option"
  keywords_content :: "string option"
  about_elements :: "string option list"
  main_p :: string
  article_p :: string
  body_p :: string
  h1_text :: string

section \<open>Cited research (youcom.ts)\<close>

record YouComSearchResult =
  citations :: "citation list"
  summary :: "string option"

text \<open>
  The payload of the research service, as far as the client reads it: three alternative
  lists of items, a plain text with its address, and a summary or answer. Every property
  is optional; the ones present are strings (lists of items).
\<close>

record you_item =
  item_text :: "string option"
  item_snippet :: "string option"
  item_content :: "string option"
  item_url :: "string option"
  item_link :: "string option"
  item_title :: "string option"
  item_source :: "string option"
  item_source_name :: "string option"

record you_payload =
  p_results :: "you_item list option"
  p_citations :: "you_item list option"
  p_snippets :: "you_item list option"
  p_text :: "string option"
  p_url :: "string option"
  p_summary :: "string option"
  p_answer :: "string option"

text \<open>A response of \<open>fetch\<close>: not \<open>ok\<close> with its status text, or \<open>ok\<close> with its JSON.\<close>

datatype http_response = NotOk string | Ok you_payload

section \<open>Stores and services\<close>

type_synonym uuid = string

type_synonym embedding = "real list"

text \<open>
  Table \<open>abm_runs\<close> (primary key \<open>id\<close>): \<open>status\<close> is one of the three texts the
  code writes, \<open>result_json\<close> is \<open>NULL\<close> (here \<open>None\<close>) until it is written.
\<close>

datatype run_status = Processing | Completed | Failed

record full_result =
  fr_insights :: json
  fr_scraped_data :: ScrapedCompanyData
  fr_you_com_citations :: nat

record run_row =
  run_company :: string
  run_domain :: string
  status :: run_status
  result_json :: "full_result option"

text \<open>
  The records that \<open>createAndStoreEmbeddings\<close> builds: \<open>embedding\<close> is
  \<open>embeddings[idx]\<close>, which is \<open>undefined\<close> when the embedder returned fewer vectors
  than texts.
\<close>

record insight_record =
  rec_run_id :: uuid
  rec_text :: string
  rec_chunk_index :: nat
  rec_embedding :: "embedding option"
  rec_citations :: "citation list"

text \<open>
  Table \<open>abm_insights\<close>: \<open>run_id\<close> references \<open>abm_runs\<close>, \<open>content_json\<close> is
  \<open>{text, chunk_index}\<close>, \<open>embedding\<close> is \<open>vector(1536) NOT NULL\<close>.
\<close>

record insight_row =
  row_run_id :: uuid
  row_text :: string
  row_chunk_index :: nat
  row_embedding :: embedding
  row_citations :: "citation list"

text \<open>A row returned by \<open>match_abm_insights\<close> (its \<open>id\<close> column left out).\<close>

record match_row =
  m_text :: string
  m_chunk_index :: nat
  m_citations :: "citation list"
  similarity :: real

text \<open>What \<open>similaritySearch\<close> returns for each row: \<open>{text, citations}\<close>.\<close>

record relevant_chunk =
  chunk_text :: string
  chunk_citations :: "citation list"

text \<open>
  A call of the database client either throws, or returns \<open>{data, error}\<close> with an
  error, or returns its data. \<open>db_outcome\<close> is the part that the environment decides: the
  call throws, the database answers with an error, or the statement is executed.
\<close>

datatype db_outcome = DbThrows exn | DbError string | DbOk

datatype 'a pg_response = PgError string | PgData 'a

text \<open>The input of \<open>openai.embeddings.create\<close>: a list of texts or one text.\<close>

datatype embed_input = Texts "string list" | OneText string

text \<open>
  The calls that the pipeline and the handler make to the embedder, the vector store, the
  generation service and the webhook, in the order in which they are made.
\<close>

datatype call =
    EmbeddingsCreate embed_input
  | InsertInsights "insight_record list"
  | RpcMatch embedding real nat uuid
  | SelectInsights uuid nat
  | ChatCompletion string
  | Webhook string

text \<open>
  The environment of one request: the answers of the services outside the repository.
  \<^item> \<open>axios_get url\<close>: the document fetched and read by the selectors, or the exception
    thrown by the fetch or the parser;
  \<^item> \<open>fetch_you endpoint query k\<close>: the answer of the research service to the \<open>k\<close>-th
    call with this endpoint and query;
  \<^item> \<open>embeddings_create\<close>: the vectors of \<open>data\<close>, in the order of the response;
  \<^item> \<open>chat_completions_create prompt\<close>: for each choice the content of its message
    (\<open>None\<close> when the message or its content is missing);
  \<^item> \<open>JSON_parse\<close>: the result of \<open>JSON.parse\<close>, any JSON value, or the
    \<open>SyntaxError\<close> that it throws; the cast to \<open>ABMInsights\<close> checks nothing, and
    the \<open>response_format\<close> of the request is a promise of the service, not of the code;
  \<^item> \<open>cosine_distance\<close>: the operator \<open><=>\<close> of the vector extension;
  \<^item> \<open>new_run_id\<close>: the identifier that \<open>gen_random_uuid()\<close> draws;
  \<^item> one outcome for each call of the database client;
  \<^item> \<open>N8N_WEBHOOK_URL\<close>: the optional setting of env.ts.
\<close>

record env =
  axios_get :: "string \<Rightarrow> exn + page"
  fetch_you :: "string \<Rightarrow> string \<Rightarrow> nat \<Rightarrow> exn + http_response"
  embeddings_create :: "embed_input \<Rightarrow> exn + embedding list"
  chat_completions_create :: "string \<Rightarrow> exn + string option list"
  JSON_parse :: "string \<Rightarrow> exn + json"
  cosine_distance :: "embedding \<Rightarrow> embedding \<Rightarrow> real"
  new_run_id :: uuid
  runs_insert :: db_outcome
  insights_insert :: db_outcome
  rpc_match :: db_outcome
  insights_select :: db_outcome
  runs_update_completed :: db_outcome
  runs_update_failed :: db_outcome
  N8N_WEBHOOK_URL :: "string option"

text \<open>
  The state that a request reads and writes: the two tables, the calls made so far, and
  for \<open>abm_runs\<close> the writes applied so far (the row's id and the status written), which
  is the history of every run's status.
\<close>

record world =
  abm_runs :: "uuid \<rightharpoonup> run_row"
  abm_insights :: "insight_row list"
  calls :: "call list"
  run_writes :: "(uuid \<times> run_status) list"

definition record_call :: "call \<Rightarrow> world \<Rightarrow> world" where
  "record_call c w = w\<lparr>calls := calls w @ [c]\<rparr>"

section \<open>scrapeCompany (scraper.ts)\<close>

text \<open>\<open>domain.replace(/^https?:\/\//, '').replace(/^www\./, '')\<close>\<close>

definition strip_protocol :: "string \<Rightarrow> string" where
  "strip_protocol s =
     (if startsWith s ''https://'' then drop 8 s
      else if startsWith s ''http://'' then drop 7 s
      else s)"

definition strip_www :: "string \<Rightarrow> string" where
  "strip_www s = (if startsWith s ''www.'' then drop 4 s else s)"

definition clean_domain :: "string \<Rightarrow> string" where
  "clean_domain d = strip_www (strip_protocol d)"

text \<open>
  The loop over \<open>aboutSelectors\<close>: the text of each selector that matches replaces
  \<open>aboutText\<close>, and the loop stops at the first text longer than 50.
\<close>

fun about_loop :: "string \<Rightarrow> string option list \<Rightarrow> string" where
  "about_loop aboutText [] = aboutText"
| "about_loop aboutText (None # es) = about_loop aboutText es"
| "about_loop aboutText (Some t # es) =
     (if length (trim t) > 50 then trim t else about_loop (trim t) es)"

definition scrape_page :: "string \<Rightarrow> page \<Rightarrow> ScrapedCompanyData" where
  "scrape_page d pg =
     (let title = str_or (trim (title_text pg)) '''';
          metaDescription = or_str (js_or (meta_description pg) (og_description pg)) '''';
          keywords = or_str (keywords_content pg) '''';
          aboutText0 = about_loop '''' (about_elements pg);
          aboutText =
            (if aboutText0 = []
             then str_or (trim (main_p pg)) (str_or (trim (article_p pg)) (trim (body_p pg)))
             else aboutText0);
          companyName =
            str_or (trim (split0 (CHR ''-'') (split0 (CHR ''|'') title)))
              (str_or (trim (h1_text pg)) (split0 (CHR ''.'') (clean_domain d)))
      in \<lparr>name = companyName,
          description = str_or metaDescription (str_or aboutText title),
          domain = clean_domain d,
          metadata = Some \<lparr>meta_title = Some title, meta_keywords = Some keywords,
                             about = Some aboutText\<rparr>\<rparr>)"

text \<open>The \<open>catch\<close> branch: the minimal profile, with \<open>metadata: {}\<close>.\<close>

definition scrape_fallback :: "string \<Rightarrow> ScrapedCompanyData" where
  "scrape_fallback d =
     \<lparr>name = split0 (CHR ''.'') (clean_domain d),
      description = ''Company information for '' @ clean_domain d,
      domain = clean_domain d,
      metadata = Some \<lparr>meta_title = None, meta_keywords = None, about = None\<rparr>\<rparr>"

definition scrapeCompany :: "env \<Rightarrow> string \<Rightarrow> ScrapedCompanyData" where
  "scrapeCompany e d =
     (let target = (if startsWith d ''http'' then d else ''https://'' @ d)
      in case axios_get e target of
           Inl err \<Rightarrow> scrape_fallback d
         | Inr pg \<Rightarrow> scrape_page d pg)"

section \<open>fetchCitedResearch and fetchExpressResearch (youcom.ts)\<close>

text \<open>
  \<open>encodeURIComponent\<close>: the unreserved characters stay, every other one becomes
  \<open>%\<close> and two hexadecimal digits for each byte of its UTF-8 encoding: one byte
  below 128, two bytes from 128 to 255.
\<close>

definition unreserved :: "char \<Rightarrow> bool" where
  "unreserved c =
     (c \<in> set ''ABCDEFGHIJKLMNOPQRSTUVWXYZabcdefghijklmnopqrstuvwxyz0123456789-_.!~*'()'')"

definition hex_digit :: "nat \<Rightarrow> char" where
  "hex_digit d = ''0123456789ABCDEF'' ! d"

definition percent_byte :: "nat \<Rightarrow> string" where
  "percent_byte b = [CHR ''%'', hex_digit (b div 16), hex_digit (b mod 16)]"

definition encodeURIComponent :: "string \<Rightarrow> string" where
  "encodeURIComponent s =
     concat (map (\<lambda>c. if unreserved c then [c]
                        else if of_char c < (128 :: nat) then percent_byte (of_char c)
                        else percent_byte (192 + of_char c div 64)
                             @ percent_byte (128 + of_char c mod 64)) s)"

text \<open>The three shapes of item that \<open>fetchCitedResearch\<close> accepts.\<close>

definition citation_of_result :: "you_item \<Rightarrow> citation list" where
  "citation_of_result r =
     (case (item_url r, item_snippet r) of
        (Some u, Some sn) \<Rightarrow>
          if u \<noteq> [] \<and> sn \<noteq> []
          then [\<lparr>cit_text = sn, url = u, title = Some (or_str (item_title r) u)\<rparr>]
          else []
      | _ \<Rightarrow> [])"

definition citation_of_citation :: "you_item \<Rightarrow> citation" where
  "citation_of_citation c =
     \<lparr>cit_text = or_str (js_or (item_text c) (item_snippet c)) '''',
      url = or_str (js_or (item_url c) (item_link c)) '''',
      title = Some (or_str (js_or (item_title c) (item_source c)) '''')\<rparr>"

definition citation_of_snippet :: "you_item \<Rightarrow> citation" where
  "citation_of_snippet s =
     \<lparr>cit_text = or_str (js_or (item_text s) (item_content s)) '''',
      url = or_str (js_or (item_url s) (item_link s)) '''',
      title = Some (or_str (item_title s) '''')\<rparr>"

definition search_citations :: "string \<Rightarrow> string \<Rightarrow> you_payload \<Rightarrow> citation list" where
  "search_citations company query data =
     (let found =
            (case p_results data of
               Some rs \<Rightarrow> concat (map citation_of_result (take 8 rs))
             | None \<Rightarrow>
                 (case p_citations data of
                    Some cs \<Rightarrow> map citation_of_citation (take 8 cs)
                  | None \<Rightarrow>
                      (case p_snippets data of
                         Some ss \<Rightarrow> map citation_of_snippet (take 8 ss)
                       | None \<Rightarrow> [])))
      in if length found = 0 \<and> truthy_str (p_text data)
         then [\<lparr>cit_text = take 500 (or_str (p_text data) ''''),
                url = or_str (p_url data)
                        (''https://you.com/search?q='' @ encodeURIComponent query),
                title = Some (''Research about '' @ company)\<rparr>]
         else found)"

text \<open>
  \<open>fetchCitedResearch\<close>; \<open>k\<close> numbers the calls of one request to this function. A
  response that is not \<open>ok\<close> throws inside the \<open>try\<close>, and every exception ends in the
  empty result.
\<close>

definition fetchCitedResearch :: "env \<Rightarrow> string \<Rightarrow> nat \<Rightarrow> YouComSearchResult" where
  "fetchCitedResearch e company k =
     (let query = ''recent news and updates about '' @ company @ '' company products services''
      in case fetch_you e ''https://api.you.com/search'' query k of
           Inl err \<Rightarrow> \<lparr>citations = [], summary = None\<rparr>
         | Inr (NotOk statusText) \<Rightarrow> \<lparr>citations = [], summary = None\<rparr>
         | Inr (Ok data) \<Rightarrow>
             \<lparr>citations = take 8 (search_citations company query data),
              summary = (if truthy_str (js_or (p_summary data) (p_answer data))
                         then js_or (p_summary data) (p_answer data) else None)\<rparr>)"

definition citation_of_express :: "you_item \<Rightarrow> citation" where
  "citation_of_express c =
     \<lparr>cit_text = or_str (js_or (item_text c) (item_content c)) '''',
      url = or_str (js_or (item_url c) (item_source c)) '''',
      title = Some (or_str (js_or (item_title c) (item_source_name c)) '''')\<rparr>"

definition fetchExpressResearch :: "env \<Rightarrow> string \<Rightarrow> YouComSearchResult" where
  "fetchExpressResearch e company =
     (let query = ''What are the latest news, products, and business updates about ''
                    @ company @ ''?''
      in case fetch_you e ''https://api.you.com/express'' query 0 of
           Inl err \<Rightarrow> fetchCitedResearch e company 0
         | Inr (NotOk statusText) \<Rightarrow> fetchCitedResearch e company 0
         | Inr (Ok data) \<Rightarrow>
             \<lparr>citations =
                take 8 (case p_citations data of
                          Some cs \<Rightarrow> map citation_of_express (take 8 cs)
                        | None \<Rightarrow> []),
              summary = js_or (p_answer data) (p_summary data)\<rparr>)"

section \<open>Prompts (prompts.ts)\<close>

definition citationsText :: "citation list \<Rightarrow> string" where
  "citationsText cs =
     join (nl @ nl)
       (map (\<lambda>(i, c). string_of_nat (i + 1) @ ''. '' @ cit_text c @ nl
                        @ ''   Source: '' @ or_str (title c) (url c))
          (enumerate 0 cs))"

definition generateInsights :: "string \<Rightarrow> string \<Rightarrow> citation list \<Rightarrow> string" where
  "generateInsights companyName scrapedData cs =
     ''You are an ABM (Account-Based Marketing) research assistant. Generate personalized insights and outreach content for ''
       @ companyName @ ''.'' @ nl
     @ nl
     @ ''Company Information:'' @ nl
     @ scrapedData @ nl
     @ nl
     @ ''Recent Research & Citations:'' @ nl
     @ citationsText cs @ nl
     @ nl
     @ ''Generate a comprehensive ABM analysis with the following structure:'' @ nl
     @ ''1. Key Insights (3-5 bullet points about the company's current state, recent news, or opportunities)'' @ nl
     @ ''2. Personalized Email Subject Line (compelling, specific to recent news/insights)'' @ nl
     @ ''3. Personalized Email Body (professional, warm, references specific recent developments, includes a clear value proposition)'' @ nl
     @ ''4. Citations (list of source URLs used)'' @ nl
     @ nl
     @ ''Return your response as a JSON object with this exact structure:'' @ nl
     @ ''{'' @ nl
     @ ''  \"insights\": [\"insight 1\", \"insight 2\", ...],'' @ nl
     @ ''  \"email_subject\": \"Subject line here\",'' @ nl
     @ ''  \"email_body\": \"Full email body here\",'' @ nl
     @ ''  \"citations\": [\"url1\", \"url2\", ...]'' @ nl
     @ ''}'' @ nl
     @ nl
     @ ''Be specific, reference recent news or developments, and make the outreach feel personalized and relevant.''"

definition generateRAGContext :: "string \<Rightarrow> string" where
  "generateRAGContext companyName =
     ''Generate relevant ABM insights for '' @ companyName @ ''. Focus on:'' @ nl
     @ ''- Recent company news and developments'' @ nl
     @ ''- Product launches or updates'' @ nl
     @ ''- Industry trends affecting the company'' @ nl
     @ ''- Potential pain points or opportunities'' @ nl
     @ ''- Key decision makers or team information''"

section \<open>The vector store (SQL setup script)\<close>

text \<open>
  \<open>match_abm_insights(query_embedding, match_threshold, match_count, run_id)\<close>: the rows
  of the run (of every run when \<open>run_id\<close> is \<open>NULL\<close>) whose similarity, one minus the
  cosine distance to the query, is greater than the threshold, ordered by that distance,
  at most \<open>match_count\<close> of them. The distance operator is a parameter; numbers are
  reals.
\<close>

definition match_abm_insights ::
  "(embedding \<Rightarrow> embedding \<Rightarrow> real) \<Rightarrow> embedding \<Rightarrow> real \<Rightarrow> nat \<Rightarrow> uuid option
     \<Rightarrow> insight_row list \<Rightarrow> match_row list" where
  "match_abm_insights distance query_embedding match_threshold match_count run_id tbl =
     map (\<lambda>r. \<lparr>m_text = row_text r, m_chunk_index = row_chunk_index r,
                 m_citations = row_citations r,
                 similarity = 1 - distance (row_embedding r) query_embedding\<rparr>)
       (take match_count
          (sort_key (\<lambda>r. distance (row_embedding r) query_embedding)
             (filter (\<lambda>r. (run_id = None \<or> Some (row_run_id r) = run_id)
                          \<and> 1 - distance (row_embedding r) query_embedding > match_threshold)
                tbl)))"

text \<open>
  \<open>supabase.rpc('match_abm_insights', ...)\<close>. The outcome \<open>DbError\<close> of the
  environment stands for every error that the database reports, such as a function that
  does not exist or a query vector whose dimension differs from that of a stored row.
\<close>

definition supabase_rpc_match ::
  "env \<Rightarrow> embedding \<Rightarrow> real \<Rightarrow> nat \<Rightarrow> uuid \<Rightarrow> world \<Rightarrow> exn + match_row list pg_response" where
  "supabase_rpc_match e query_embedding match_threshold match_count run_id w =
     (case rpc_match e of
        DbThrows err \<Rightarrow> Inl err
      | DbError msg \<Rightarrow> Inr (PgError msg)
      | DbOk \<Rightarrow>
          Inr (PgData (match_abm_insights (cosine_distance e) query_embedding
                         match_threshold match_count (Some run_id) (abm_insights w))))"

text \<open>
  \<open>supabase.from('abm_insights').select('content_json, citations').eq('run_id', runId).limit(limit)\<close>
\<close>

definition supabase_select_insights ::
  "env \<Rightarrow> uuid \<Rightarrow> nat \<Rightarrow> world \<Rightarrow> exn + insight_row list pg_response" where
  "supabase_select_insights e run_id limit w =
     (case insights_select e of
        DbThrows err \<Rightarrow> Inl err
      | DbError msg \<Rightarrow> Inr (PgError msg)
      | DbOk \<Rightarrow> Inr (PgData (take limit (filter (\<lambda>r. row_run_id r = run_id) (abm_insights w)))))"

text \<open>
  \<open>supabase.from('abm_insights').insert(records)\<close>: all records are inserted, or none
  when one of them has no embedding (\<open>NOT NULL\<close>), an embedding of another dimension
  than 1536, or a \<open>run_id\<close> without its run.
\<close>

definition row_of_record :: "insight_record \<Rightarrow> insight_row option" where
  "row_of_record r =
     (case rec_embedding r of
        None \<Rightarrow> None
      | Some v \<Rightarrow> Some \<lparr>row_run_id = rec_run_id r, row_text = rec_text r,
                          row_chunk_index = rec_chunk_index r, row_embedding = v,
                          row_citations = rec_citations r\<rparr>)"

definition supabase_insert_insights ::
  "env \<Rightarrow> insight_record list \<Rightarrow> world \<Rightarrow> (exn + unit pg_response) \<times> world" where
  "supabase_insert_insights e records w =
     (case insights_insert e of
        DbThrows err \<Rightarrow> (Inl err, w)
      | DbError msg \<Rightarrow> (Inr (PgError msg), w)
      | DbOk \<Rightarrow>
          (case those (map row_of_record records) of
             None \<Rightarrow> (Inr (PgError ''null value in column embedding''), w)
           | Some rows \<Rightarrow>
               if \<not> list_all (\<lambda>r. length (row_embedding r) = 1536) rows
               then (Inr (PgError ''expected 1536 dimensions''), w)
               else if \<not> list_all (\<lambda>r. abm_runs w (row_run_id r) \<noteq> None) rows
               then (Inr (PgError ''violates foreign key constraint''), w)
               else (Inr (PgData ()), w\<lparr>abm_insights := abm_insights w @ rows\<rparr>)))"

section \<open>The pipeline (rag.ts)\<close>

text \<open>
  The records of \<open>createAndStoreEmbeddings\<close>:
  \<open>texts.map((text, idx) => ({run_id, content_json: {text, chunk_index: idx},
  embedding: embeddings[idx], citations: citations[idx] ? [citations[idx]] : []}))\<close>.
  A citation is an object, which is truthy whatever its properties are.
\<close>

definition records_of ::
  "uuid \<Rightarrow> string list \<Rightarrow> embedding list \<Rightarrow> citation list \<Rightarrow> insight_record list" where
  "records_of runId texts embeddings cits =
     map (\<lambda>(idx, txt).
            \<lparr>rec_run_id = runId, rec_text = txt, rec_chunk_index = idx,
             rec_embedding = at_index embeddings idx,
             rec_citations = (case at_index cits idx of Some c \<Rightarrow> [c] | None \<Rightarrow> [])\<rparr>)
       (enumerate 0 texts)"

text \<open>
  \<open>createAndStoreEmbeddings\<close>: the \<open>catch\<close> logs and throws the same error again.
\<close>

definition createAndStoreEmbeddings ::
  "env \<Rightarrow> uuid \<Rightarrow> string list \<Rightarrow> citation list \<Rightarrow> world \<Rightarrow> (exn + unit) \<times> world" where
  "createAndStoreEmbeddings e runId texts cits w =
     (let w1 = record_call (EmbeddingsCreate (Texts texts)) w
      in case embeddings_create e (Texts texts) of
           Inl err \<Rightarrow> (Inl err, w1)
         | Inr embeddings \<Rightarrow>
             (let records = records_of runId texts embeddings cits;
                  w2 = record_call (InsertInsights records) w1
              in case supabase_insert_insights e records w2 of
                   (Inl err, w3) \<Rightarrow> (Inl err, w3)
                 | (Inr (PgError msg), w3) \<Rightarrow> (Inl (Thrown msg), w3)
                 | (Inr (PgData u), w3) \<Rightarrow> (Inr (), w3)))"

text \<open>
  \<open>similaritySearch\<close>: the body of its \<open>try\<close>, then the function with its \<open>catch\<close>,
  which returns the empty list. The threshold passed is the literal 0.7.
\<close>

definition chunk_of_match :: "match_row \<Rightarrow> relevant_chunk" where
  "chunk_of_match item = \<lparr>chunk_text = str_or (m_text item) '''', chunk_citations = m_citations item\<rparr>"

definition chunk_of_row :: "insight_row \<Rightarrow> relevant_chunk" where
  "chunk_of_row item = \<lparr>chunk_text = str_or (row_text item) '''', chunk_citations = row_citations item\<rparr>"

definition similaritySearch_try ::
  "env \<Rightarrow> embedding \<Rightarrow> uuid \<Rightarrow> nat \<Rightarrow> world \<Rightarrow> (exn + relevant_chunk list) \<times> world" where
  "similaritySearch_try e queryEmbedding runId limit w =
     (let w1 = record_call (RpcMatch queryEmbedding (7 / 10) limit runId) w
      in case supabase_rpc_match e queryEmbedding (7 / 10) limit runId w1 of
           Inl err \<Rightarrow> (Inl err, w1)
         | Inr (PgData rows) \<Rightarrow> (Inr (map chunk_of_match rows), w1)
         | Inr (PgError msg) \<Rightarrow>
             (let w2 = record_call (SelectInsights runId limit) w1
              in case supabase_select_insights e runId limit w2 of
                   Inl err \<Rightarrow> (Inl err, w2)
                 | Inr (PgError fallbackError) \<Rightarrow> (Inl (Thrown fallbackError), w2)
                 | Inr (PgData fallbackData) \<Rightarrow> (Inr (map chunk_of_row fallbackData), w2)))"

definition similaritySearch ::
  "env \<Rightarrow> embedding \<Rightarrow> uuid \<Rightarrow> nat \<Rightarrow> world \<Rightarrow> (exn + relevant_chunk list) \<times> world" where
  "similaritySearch e queryEmbedding runId limit w =
     (case similaritySearch_try e queryEmbedding runId limit w of
        (Inl err, w') \<Rightarrow> (Inr [], w')
      | (Inr chunks, w') \<Rightarrow> (Inr chunks, w'))"

text \<open>
  The start of \<open>runRAGPipeline\<close> (lines 115-133): the texts and their citations, pushed
  pairwise. \<open>scrapedData.description\<close> and \<open>scrapedData.metadata?.about\<close> count
  when they are truthy: present and not the empty string.
\<close>

definition synthetic_citation :: "ScrapedCompanyData \<Rightarrow> citation" where
  "synthetic_citation sd = \<lparr>cit_text = '''', url = ''https://'' @ domain sd, title = Some (name sd)\<rparr>"

definition metadata_about :: "ScrapedCompanyData \<Rightarrow> string option" where
  "metadata_about sd = (case metadata sd of None \<Rightarrow> None | Some md \<Rightarrow> about md)"

text \<open>The loop \<open>for (const citation of youComCitations)\<close> with its two pushes.\<close>

fun push_citations :: "string list \<times> citation list \<Rightarrow> citation list \<Rightarrow> string list \<times> citation list" where
  "push_citations (texts, cits) [] = (texts, cits)"
| "push_citations (texts, cits) (c # cs) = push_citations (texts @ [cit_text c], cits @ [c]) cs"

definition build_chunks :: "ScrapedCompanyData \<Rightarrow> citation list \<Rightarrow> string list \<times> citation list" where
  "build_chunks sd youComCitations =
     (let chunks0 = ([], []);
          chunks1 =
            (if description sd \<noteq> []
             then (fst chunks0 @ [''Company: '' @ name sd @ nl @ ''Description: '' @ description sd],
                   snd chunks0 @ [synthetic_citation sd])
             else chunks0);
          chunks2 =
            (if truthy_str (metadata_about sd)
             then (fst chunks1 @ [''About: '' @ or_str (metadata_about sd) ''''],
                   snd chunks1 @ [synthetic_citation sd])
             else chunks1)
      in push_citations chunks2 youComCitations)"

text \<open>
  \<open>relevantChunks.map((chunk, idx) => `[${idx + 1}] ${chunk.text}`).join('\n\n')\<close>
\<close>

definition contextText :: "relevant_chunk list \<Rightarrow> string" where
  "contextText relevantChunks =
     join (nl @ nl)
       (map (\<lambda>(idx, chunk). ''['' @ string_of_nat (idx + 1) @ ''] '' @ chunk_text chunk)
          (enumerate 0 relevantChunks))"

definition allCitations :: "relevant_chunk list \<Rightarrow> citation list" where
  "allCitations relevantChunks = concat (map chunk_citations relevantChunks)"

definition insights_prompt :: "string \<Rightarrow> ScrapedCompanyData \<Rightarrow> relevant_chunk list \<Rightarrow> string" where
  "insights_prompt companyName sd relevantChunks =
     generateInsights companyName
       (''Company: '' @ name sd @ nl @ description sd @ nl @ nl @ contextText relevantChunks)
       (uniqueCitations (allCitations relevantChunks))"

text \<open>
  \<open>completion.choices[0]?.message?.content || '{}'\<close>
\<close>

definition responseText :: "string option list \<Rightarrow> string" where
  "responseText choices = (case choices of [] \<Rightarrow> ''{}'' | content # _ \<Rightarrow> or_str content ''{}'')"

text \<open>
  \<open>if (!parsed.citations || parsed.citations.length === 0)
       parsed.citations = uniqueCitations.map((c) => c.url)\<close>
  for a parsed value that is an object.
\<close>

definition citations_missing :: "obj \<Rightarrow> bool" where
  "citations_missing parsed =
     (case get_prop parsed ''citations'' of
        None \<Rightarrow> True
      | Some v \<Rightarrow> \<not> truthy v \<or> js_length v = Some (JNum 0))"

definition ensure_citations :: "citation list \<Rightarrow> obj \<Rightarrow> obj" where
  "ensure_citations uniq parsed =
     (if citations_missing parsed
      then set_prop ''citations'' (JArr (map (\<lambda>c. JStr (url c)) uniq)) parsed
      else parsed)"

text \<open>
  The value that \<open>runRAGPipeline\<close> returns: an object, or an array together with the
  properties it has besides its elements. Serialised (\<open>JSON.stringify\<close>, in the
  response and in \<open>result_json\<close>) an array keeps its elements only.
\<close>

datatype insights_value = ObjectValue obj | ArrayValue "json list" obj

fun to_json :: "insights_value \<Rightarrow> json" where
  "to_json (ObjectValue ob) = JObj ob"
| "to_json (ArrayValue xs props) = JArr xs"

text \<open>
  The same two statements for every value that \<open>JSON.parse\<close> can return. Reading
  \<open>citations\<close> of \<open>null\<close> throws a \<open>TypeError\<close>. A boolean, a number and a
  string have no such property, so the assignment is made, and it throws a
  \<open>TypeError\<close> because the module is strict code. An array has no such property
  either: it gets one, and is returned with it.
\<close>

fun assign_citations :: "citation list \<Rightarrow> json \<Rightarrow> exn + insights_value" where
  "assign_citations uniq JNull = Inl (Error ''Cannot read properties of null'')"
| "assign_citations uniq (JBool b) = Inl (Error ''Cannot create property on boolean'')"
| "assign_citations uniq (JNum r) = Inl (Error ''Cannot create property on number'')"
| "assign_citations uniq (JStr s) = Inl (Error ''Cannot create property on string'')"
| "assign_citations uniq (JArr xs) =
     Inr (ArrayValue xs [(''citations'', JArr (map (\<lambda>c. JStr (url c)) uniq))])"
| "assign_citations uniq (JObj ob) = Inr (ObjectValue (ensure_citations uniq ob))"

text \<open>
  The body of the \<open>try\<close> of \<open>runRAGPipeline\<close>. An empty \<open>data\<close> of the query
  embedding makes \<open>data[0].embedding\<close> throw a \<open>TypeError\<close>.
  \<open>similaritySearch\<close> never returns an exception, so the branch for one is never
  taken.
\<close>

definition runRAGPipeline_try ::
  "env \<Rightarrow> uuid \<Rightarrow> string \<Rightarrow> ScrapedCompanyData \<Rightarrow> citation list \<Rightarrow> world
     \<Rightarrow> (exn + insights_value) \<times> world" where
  "runRAGPipeline_try e runId companyName sd youComCitations w =
     (case build_chunks sd youComCitations of
        (textChunks, chunkCitations) \<Rightarrow>
          if length textChunks = 0
          then (Inl (Error ''No text chunks to process''), w)
          else
            (case createAndStoreEmbeddings e runId textChunks chunkCitations w of
              (Inl err, w1) \<Rightarrow> (Inl err, w1)
            | (Inr u, w1) \<Rightarrow>
                (let queryText = generateRAGContext companyName;
                     w2 = record_call (EmbeddingsCreate (OneText queryText)) w1
                 in case embeddings_create e (OneText queryText) of
                      Inl err \<Rightarrow> (Inl err, w2)
                    | Inr [] \<Rightarrow> (Inl (Error ''Cannot read properties of undefined''), w2)
                    | Inr (queryEmbedding # _) \<Rightarrow>
                        (case similaritySearch e queryEmbedding runId 5 w2 of
                           (Inl err, w3) \<Rightarrow> (Inl err, w3)
                         | (Inr relevantChunks, w3) \<Rightarrow>
                             (let prompt = insights_prompt companyName sd relevantChunks;
                                  w4 = record_call (ChatCompletion prompt) w3
                              in case chat_completions_create e prompt of
                                   Inl err \<Rightarrow> (Inl err, w4)
                                 | Inr choices \<Rightarrow>
                                     (case JSON_parse e (responseText choices) of
                                        Inl err \<Rightarrow> (Inl err, w4)
                                      | Inr parsed \<Rightarrow>
                                          (assign_citations
                                             (uniqueCitations (allCitations relevantChunks))
                                             parsed, w4)))))))"

text \<open>The object returned by the \<open>catch\<close> of \<open>runRAGPipeline\<close>.\<close>

definition fallback_insights :: "ScrapedCompanyData \<Rightarrow> citation list \<Rightarrow> obj" where
  "fallback_insights sd youComCitations =
     [(''insights'',
         JArr [JStr (''Company: '' @ name sd),
               JStr (''Domain: '' @ domain sd),
               JStr ''Research completed with available data'']),
      (''email_subject'', JStr (''Opportunity for '' @ name sd)),
      (''email_body'',
         JStr (''Hello '' @ name sd @ '' team,'' @ nl @ nl
               @ ''I wanted to reach out regarding potential collaboration opportunities.''
               @ nl @ nl @ ''Best regards'')),
      (''citations'', JArr (map (\<lambda>c. JStr (url c)) youComCitations))]"

definition runRAGPipeline ::
  "env \<Rightarrow> uuid \<Rightarrow> string \<Rightarrow> ScrapedCompanyData \<Rightarrow> citation list \<Rightarrow> world
     \<Rightarrow> insights_value \<times> world" where
  "runRAGPipeline e runId companyName sd youComCitations w =
     (case runRAGPipeline_try e runId companyName sd youComCitations w of
        (Inl err, w') \<Rightarrow> (ObjectValue (fallback_insights sd youComCitations), w')
      | (Inr parsed, w') \<Rightarrow> (parsed, w'))"

section \<open>The request handler (route.ts)\<close>

text \<open>
  \<open>requestSchema\<close>: \<open>company\<close> and \<open>domain\<close> are strings of length at least 1,
  \<open>send_via_n8n\<close> is an optional boolean with default \<open>false\<close>. A failed parse throws a
  \<open>ZodError\<close>, which is given here by the paths of its issues.
\<close>

record validated =
  v_company :: string
  v_domain :: string
  v_send_via_n8n :: bool

definition string_min1_issues :: "string \<Rightarrow> json option \<Rightarrow> string list" where
  "string_min1_issues path v =
     (case v of
        Some (JStr s) \<Rightarrow> if length s \<ge> 1 then [] else [path]
      | _ \<Rightarrow> [path])"

definition optional_boolean_issues :: "string \<Rightarrow> json option \<Rightarrow> string list" where
  "optional_boolean_issues path v =
     (case v of
        None \<Rightarrow> []
      | Some (JBool b) \<Rightarrow> []
      | _ \<Rightarrow> [path])"

definition requestSchema_parse :: "json \<Rightarrow> string list + validated" where
  "requestSchema_parse body =
     (case body of
        JObj ob \<Rightarrow>
          (let issues = string_min1_issues ''company'' (get_prop ob ''company'')
                        @ string_min1_issues ''domain'' (get_prop ob ''domain'')
                        @ optional_boolean_issues ''send_via_n8n'' (get_prop ob ''send_via_n8n'')
           in if issues \<noteq> [] then Inl issues
              else Inr \<lparr>v_company = (case get_prop ob ''company'' of Some (JStr s) \<Rightarrow> s | _ \<Rightarrow> ''''),
                        v_domain = (case get_prop ob ''domain'' of Some (JStr s) \<Rightarrow> s | _ \<Rightarrow> ''''),
                        v_send_via_n8n =
                          (case get_prop ob ''send_via_n8n'' of Some (JBool b) \<Rightarrow> b | _ \<Rightarrow> False)\<rparr>)
      | _ \<Rightarrow> Inl [''''])"

text \<open>The responses of \<open>POST\<close>.\<close>

record success_body =
  res_run_id :: uuid
  res_company :: string
  res_domain :: string
  res_insights :: json
  res_scraped_data :: ScrapedCompanyData
  res_you_com_citations :: nat

datatype response =
    Success success_body
  | InvalidRequest "string list"
  | FailedToCreateRun string
  | FailedToProcess string uuid
  | InternalServerError

text \<open>
  \<open>supabase.from('abm_runs').insert({company, domain, status: 'processing'}).select().single()\<close>:
  the new row gets the identifier drawn by the database; an identifier already in the
  table violates the primary key.
\<close>

definition supabase_insert_run ::
  "env \<Rightarrow> string \<Rightarrow> string \<Rightarrow> world \<Rightarrow> (exn + uuid pg_response) \<times> world" where
  "supabase_insert_run e company domain_name w =
     (case runs_insert e of
        DbThrows err \<Rightarrow> (Inl err, w)
      | DbError msg \<Rightarrow> (Inr (PgError msg), w)
      | DbOk \<Rightarrow>
          if abm_runs w (new_run_id e) \<noteq> None
          then (Inr (PgError ''duplicate key value violates unique constraint''), w)
          else (Inr (PgData (new_run_id e)),
                w\<lparr>abm_runs := (abm_runs w)(new_run_id e \<mapsto>
                       \<lparr>run_company = company, run_domain = domain_name, status = Processing,
                        result_json = None\<rparr>),
                  run_writes := run_writes w @ [(new_run_id e, Processing)]\<rparr>))"

text \<open>
  \<open>supabase.from('abm_runs').update({status, result_json?}).eq('id', runId)\<close>: the
  status is written, and the result when the update carries one.
\<close>

definition supabase_update_run ::
  "db_outcome \<Rightarrow> uuid \<Rightarrow> run_status \<Rightarrow> full_result option \<Rightarrow> world
     \<Rightarrow> (exn + unit pg_response) \<times> world" where
  "supabase_update_run outcome runId st payload w =
     (case outcome of
        DbThrows err \<Rightarrow> (Inl err, w)
      | DbError msg \<Rightarrow> (Inr (PgError msg), w)
      | DbOk \<Rightarrow>
          (case abm_runs w runId of
             None \<Rightarrow> (Inr (PgData ()), w)
           | Some r \<Rightarrow>
               (Inr (PgData ()),
                w\<lparr>abm_runs := (abm_runs w)(runId \<mapsto>
                       r\<lparr>status := st,
                         result_json := (case payload of None \<Rightarrow> result_json r
                                         | Some p \<Rightarrow> Some p)\<rparr>),
                  run_writes := run_writes w @ [(runId, st)]\<rparr>)))"

text \<open>
  Step 2 of \<open>POST\<close>: the express research, then the search when it has no citation.
  Neither function throws, so the \<open>catch\<close> around them is never entered.
\<close>

definition research :: "env \<Rightarrow> string \<Rightarrow> YouComSearchResult" where
  "research e company =
     (let youComData = fetchExpressResearch e company
      in if length (citations youComData) = 0 then fetchCitedResearch e company 1
         else youComData)"

text \<open>
  Step 5: the webhook is called when it is requested and configured; what the call
  returns or throws is ignored.
\<close>

definition trigger_n8n :: "env \<Rightarrow> validated \<Rightarrow> world \<Rightarrow> world" where
  "trigger_n8n e v w =
     (case N8N_WEBHOOK_URL e of
        Some hook \<Rightarrow> if v_send_via_n8n v \<and> hook \<noteq> [] then record_call (Webhook hook) w else w
      | None \<Rightarrow> w)"

text \<open>
  The body of the inner \<open>try\<close> of \<open>POST\<close>, steps 1 to 5. The insights are
  serialised where they are stored and where they are sent.
\<close>

definition process_run :: "env \<Rightarrow> validated \<Rightarrow> uuid \<Rightarrow> world \<Rightarrow> (exn + response) \<times> world" where
  "process_run e v runId w =
     (let scrapedData = scrapeCompany e (v_domain v);
          youComData = research e (v_company v)
      in case runRAGPipeline e runId (v_company v) scrapedData (citations youComData) w of
           (insights, w1) \<Rightarrow>
             (let fullResult = \<lparr>fr_insights = to_json insights, fr_scraped_data = scrapedData,
                                fr_you_com_citations = length (citations youComData)\<rparr>
              in case supabase_update_run (runs_update_completed e) runId Completed
                        (Some fullResult) w1 of
                   (Inl err, w2) \<Rightarrow> (Inl err, w2)
                 | (Inr u, w2) \<Rightarrow>
                     (Inr (Success \<lparr>res_run_id = runId, res_company = v_company v,
                                     res_domain = v_domain v, res_insights = to_json insights,
                                     res_scraped_data = scrapedData,
                                     res_you_com_citations = length (citations youComData)\<rparr>),
                      trigger_n8n e v w2)))"

text \<open>\<open>error instanceof Error ? error.message : 'Unknown error'\<close>\<close>

definition error_details :: "exn \<Rightarrow> string" where
  "error_details x = (case x of Error msg \<Rightarrow> msg | Thrown v \<Rightarrow> ''Unknown error'')"

text \<open>
  \<open>POST\<close>. The body of the request is the result of \<open>request.json()\<close>. An exception
  that is not a \<open>ZodError\<close> and reaches the outer \<open>catch\<close> gives the response
  \<open>Internal server error\<close>; this includes an exception of the status update inside
  the inner \<open>catch\<close>.
\<close>

definition POST :: "env \<Rightarrow> exn + json \<Rightarrow> world \<Rightarrow> response \<times> world" where
  "POST e body w =
     (case body of
        Inl err \<Rightarrow> (InternalServerError, w)
      | Inr j \<Rightarrow>
          (case requestSchema_parse j of
             Inl issues \<Rightarrow> (InvalidRequest issues, w)
           | Inr v \<Rightarrow>
               (case supabase_insert_run e (v_company v) (v_domain v) w of
                  (Inl err, w1) \<Rightarrow> (InternalServerError, w1)
                | (Inr (PgError runError), w1) \<Rightarrow> (FailedToCreateRun runError, w1)
                | (Inr (PgData runId), w1) \<Rightarrow>
                    (case process_run e v runId w1 of
                       (Inr resp, w2) \<Rightarrow> (resp, w2)
                     | (Inl err, w2) \<Rightarrow>
                         (case supabase_update_run (runs_update_failed e) runId Failed None w2 of
                            (Inl err', w3) \<Rightarrow> (InternalServerError, w3)
                          | (Inr u, w3) \<Rightarrow> (FailedToProcess (error_details err) runId, w3))))))"

text \<open>A sequence of requests, each with its environment, served one after the other.\<close>

fun serve :: "(env \<times> (exn + json)) list \<Rightarrow> world \<Rightarrow> world" where
  "serve [] w = w"
| "serve ((e, body) # rest) w = serve rest (snd (POST e body w))"

definition empty_world :: world where
  "empty_world = \<lparr>abm_runs = Map.empty, abm_insights = [], calls = [], run_writes = []\<rparr>"

section \<open>Concrete requests and environments\<close>

text \<open>The request and the profile of the spec's example.\<close>

definition acme_request :: json where
  "acme_request = JObj [(''company'', JStr ''Acme''), (''domain'', JStr ''acme.com'')]"

definition acme_profile :: ScrapedCompanyData where
  "acme_profile =
     \<lparr>name = ''Acme'', description = '''', domain = ''acme.com'',
      metadata = Some \<lparr>meta_title = None, meta_keywords = None, about = None\<rparr>\<rparr>"

definition vec1536 :: embedding where
  "vec1536 = replicate 1536 1"

definition parse_empty_object_only :: "string \<Rightarrow> exn + json" where
  "parse_empty_object_only s =
     (if s = ''{}'' then Inr (JObj []) else Inl (Error ''Unexpected token''))"

text \<open>
  Every service but the run store fails: the scraper's fetch, the research service, the
  embedder, the vector store and the generation call.
\<close>

definition offline_env :: env where
  "offline_env =
     \<lparr>axios_get = (\<lambda>target. Inl (Error ''getaddrinfo ENOTFOUND'')),
      fetch_you = (\<lambda>endpoint query k. Inl (Error ''fetch failed'')),
      embeddings_create = (\<lambda>input. Inl (Error ''Connection error.'')),
      chat_completions_create = (\<lambda>prompt. Inl (Error ''Connection error.'')),
      JSON_parse = parse_empty_object_only,
      cosine_distance = (\<lambda>a b. 0),
      new_run_id = ''run-1'',
      runs_insert = DbOk,
      insights_insert = DbThrows (Error ''fetch failed''),
      rpc_match = DbThrows (Error ''fetch failed''),
      insights_select = DbThrows (Error ''fetch failed''),
      runs_update_completed = DbOk,
      runs_update_failed = DbOk,
      N8N_WEBHOOK_URL = None\<rparr>"

text \<open>
  The embedder and the stores answer; the completion comes back without content, so
  that the text parsed is \<open>{}\<close>.
\<close>

definition online_env :: env where
  "online_env =
     offline_env
       \<lparr>embeddings_create :=
          (\<lambda>input. case input of Texts ts \<Rightarrow> Inr (map (\<lambda>t. vec1536) ts)
                                 | OneText t \<Rightarrow> Inr [vec1536]),
        chat_completions_create := (\<lambda>prompt. Inr [None]),
        insights_insert := DbOk,
        rpc_match := DbOk,
        insights_select := DbOk\<rparr>"






definition array_reply_env :: env where
  "array_reply_env =
     online_env
       \<lparr>chat_completions_create := (\<lambda>prompt. Inr [Some ''[1, 2]'']),
        JSON_parse := (\<lambda>s. if s = ''[1, 2]'' then Inr (JArr [JNum 1, JNum 2])
                              else parse_empty_object_only s)\<rparr>"


definition update_throws_env :: env where
  "update_throws_env = offline_env\<lparr>runs_update_completed := DbThrows (Error ''fetch failed'')\<rparr>"

text \<open>A citation without URL, and a store that holds the run \<open>run-1\<close>.\<close>

definition no_url_citation :: citation where
  "no_url_citation = \<lparr>cit_text = ''Acme opened a second plant'', url = '''', title = Some ''''\<rparr>"

definition run1_world :: world where
  "run1_world =
     \<lparr>abm_runs = [''run-1'' \<mapsto> \<lparr>run_company = ''Acme'', run_domain = ''acme.com'',
                                  status = Processing, result_json = None\<rparr>],
      abm_insights = [],
      calls = [],
      run_writes = [(''run-1'', Processing)]\<rparr>"

text \<open>
  A profile with a description and an about text; and the profile that \<open>scrape_page\<close>
  returns for a document in which the selectors find nothing but a heading.
\<close>

definition rocket_profile :: ScrapedCompanyData where
  "rocket_profile =
     \<lparr>name = ''Acme'', description = ''Rockets'', domain = ''acme.com'',
      metadata = Some \<lparr>meta_title = Some ''Acme'', meta_keywords = Some '''',
                         about = Some ''We build rockets''\<rparr>\<rparr>"

definition heading_only_page :: page where
  "heading_only_page =
     \<lparr>title_text = '''', meta_description = None, og_description = None,
      keywords_content = None, about_elements = [None, None, None, None, None, None, None],
      main_p = '''', article_p = '''', body_p = '''', h1_text = ''Acme''\<rparr>"

definition heading_only_profile :: ScrapedCompanyData where
  "heading_only_profile =
     \<lparr>name = ''Acme'', description = '''', domain = ''acme.com'',
      metadata = Some \<lparr>meta_title = Some '''', meta_keywords = Some '''', about = Some ''''\<rparr>\<rparr>"

text \<open>
  The rows that \<open>match_abm_insights\<close> selects, before their columns are projected.
\<close>

definition matched_rows ::
  "(embedding \<Rightarrow> embedding \<Rightarrow> real) \<Rightarrow> embedding \<Rightarrow> real \<Rightarrow> nat \<Rightarrow> uuid option
     \<Rightarrow> insight_row list \<Rightarrow> insight_row list" where
  "matched_rows distance q t n rid tbl =
     take n (sort_key (\<lambda>r. distance (row_embedding r) q)
       (filter (\<lambda>r. (rid = None \<or> Some (row_run_id r) = rid)
                    \<and> 1 - distance (row_embedding r) q > t) tbl))"

text \<open>
  A distance that reads the first component of the stored vector, and a table with three
  rows of run \<open>run-1\<close> at distances 0.3, 0.2 and 0.1 and one row of another run.
\<close>

definition first_component :: "embedding \<Rightarrow> embedding \<Rightarrow> real" where
  "first_component a b = (case a of [] \<Rightarrow> 1 | x # xs \<Rightarrow> x)"

definition three_rows :: "insight_row list" where
  "three_rows =
     [\<lparr>row_run_id = ''run-1'', row_text = ''far'', row_chunk_index = 0,
       row_embedding = [3 / 10], row_citations = []\<rparr>,
      \<lparr>row_run_id = ''run-1'', row_text = ''near'', row_chunk_index = 1,
       row_embedding = [2 / 10], row_citations = []\<rparr>,
      \<lparr>row_run_id = ''run-1'', row_text = ''nearest'', row_chunk_index = 2,
       row_embedding = [1 / 10], row_citations = []\<rparr>,
      \<lparr>row_run_id = ''run-2'', row_text = ''other run'', row_chunk_index = 0,
       row_embedding = [0], row_citations = []\<rparr>]"


section \<open>The life of a run\<close>

text \<open>
  The statuses written for a run, in order. A legal history starts in \<open>Processing\<close>
  and is followed by at most one status, \<open>Completed\<close> or \<open>Failed\<close>. A run is in
  order when its history is legal, its status is the last one written, and it has a
  result exactly when it is \<open>Completed\<close>; an identifier without run has no history.
\<close>

definition status_history :: "world \<Rightarrow> uuid \<Rightarrow> run_status list" where
  "status_history w i = map snd (filter (\<lambda>p. fst p = i) (run_writes w))"

definition legal_history :: "run_status list \<Rightarrow> bool" where
  "legal_history h =
     (h = [Processing] \<or> h = [Processing, Completed] \<or> h = [Processing, Failed])"

definition run_ok :: "world \<Rightarrow> uuid \<Rightarrow> bool" where
  "run_ok w i =
     (case abm_runs w i of
        None \<Rightarrow> status_history w i = []
      | Some r \<Rightarrow>
          legal_history (status_history w i)
          \<and> status r = last (status_history w i)
          \<and> ((result_json r \<noteq> None) = (status r = Completed)))"

definition store_ok :: "world \<Rightarrow> bool" where
  "store_ok w = (\<forall>i. run_ok w i)"

text \<open>The row that \<open>POST\<close> inserts.\<close>

definition fresh_row :: "string \<Rightarrow> string \<Rightarrow> run_row" where
  "fresh_row c d = \<lparr>run_company = c, run_domain = d, status = Processing, result_json = None\<rparr>"

section \<open>The stages and the result of the pipeline\<close>





text \<open>
  The same for the request of the example, whose profile is the one that the scraper
  returns when its fetch fails, and which has no citation.
\<close>

definition profile_text :: string where
  "profile_text =
     ''Company: acme'' @ nl @ ''Description: Company information for acme.com''"

definition profile_chunk :: relevant_chunk where
  "profile_chunk =
     \<lparr>chunk_text = profile_text,
      chunk_citations = [synthetic_citation (scrape_fallback ''acme.com'')]\<rparr>"

definition profile_retrieved :: world where
  "profile_retrieved =
     run1_world
       \<lparr>abm_insights :=
          [\<lparr>row_run_id = ''run-1'', row_text = profile_text,
            row_chunk_index = 0, row_embedding = vec1536,
            row_citations = [synthetic_citation (scrape_fallback ''acme.com'')]\<rparr>],
        calls :=
          [EmbeddingsCreate (Texts [profile_text]),
           InsertInsights
             (records_of ''run-1'' [profile_text] [vec1536]
                [synthetic_citation (scrape_fallback ''acme.com'')]),
           EmbeddingsCreate (OneText (generateRAGContext ''Acme'')),
           RpcMatch vec1536 (7 / 10) 5 ''run-1'']\<rparr>"

text \<open>
  The steps of \<open>runRAGPipeline\<close> before the generation call succeed: a chunk is built,
  the chunks are embedded and stored, the query is embedded, and \<open>similaritySearch\<close>
  returns \<open>relevantChunks\<close> and leaves the state \<open>w3\<close>.
\<close>

definition reaches_generation ::
  "env \<Rightarrow> uuid \<Rightarrow> string \<Rightarrow> ScrapedCompanyData \<Rightarrow> citation list \<Rightarrow> world
     \<Rightarrow> relevant_chunk list \<Rightarrow> world \<Rightarrow> bool" where
  "reaches_generation e runId companyName sd youComCitations w relevantChunks w3 =
     (case build_chunks sd youComCitations of
        (textChunks, chunkCitations) \<Rightarrow>
          textChunks \<noteq> []
          \<and> (case createAndStoreEmbeddings e runId textChunks chunkCitations w of
               (Inl err, w1) \<Rightarrow> False
             | (Inr u, w1) \<Rightarrow>
                 (case embeddings_create e (OneText (generateRAGContext companyName)) of
                    Inl err \<Rightarrow> False
                  | Inr [] \<Rightarrow> False
                  | Inr (queryEmbedding # rest) \<Rightarrow>
                      similaritySearch e queryEmbedding runId 5
                        (record_call (EmbeddingsCreate (OneText (generateRAGContext companyName)))
                           w1)
                        = (Inr relevantChunks, w3))))"

text \<open>
  The four fields of \<open>ABMInsights\<close>, as members of a serialised value: only an object
  has members.
\<close>

fun json_has_prop :: "json \<Rightarrow> string \<Rightarrow> bool" where
  "json_has_prop (JObj ob) k = has_prop ob k"
| "json_has_prop JNull k = False"
| "json_has_prop (JBool b) k = False"
| "json_has_prop (JNum r) k = False"
| "json_has_prop (JStr s) k = False"
| "json_has_prop (JArr xs) k = False"

definition has_all_insights_fields :: "json \<Rightarrow> bool" where
  "has_all_insights_fields j =
     (json_has_prop j ''insights'' \<and> json_has_prop j ''email_subject''
      \<and> json_has_prop j ''email_body'' \<and> json_has_prop j ''citations'')"

section \<open>Facts about the deduplication\<close>

lemma map_of_Map_set: "map_of (Map_set k v m) = (map_of m)(k \<mapsto> v)"
  by (induction m) (auto simp: fun_eq_iff)

lemma keys_Map_set: "set (map fst (Map_set k v m)) = insert k (set (map fst m))"
proof (induction m)
  case Nil
  show ?case by simp
next
  case (Cons p m)
  obtain k' v' where p: "p = (k', v')" by (cases p)
  show ?case
  proof (cases "k' = k")
    case True
    then show ?thesis by (simp add: p)
  next
    case False
    then show ?thesis using Cons.IH by (simp add: p insert_commute)
  qed
qed

lemma distinct_Map_set:
  "distinct (map fst m) \<Longrightarrow> distinct (map fst (Map_set k v m))"
proof (induction m)
  case Nil
  show ?case by simp
next
  case (Cons p m)
  obtain k' v' where p: "p = (k', v')" by (cases p)
  from Cons.prems have d: "distinct (map fst m)" and n: "k' \<notin> set (map fst m)"
    by (simp_all add: p)
  show ?case
  proof (cases "k' = k")
    case True
    with n d show ?thesis by (simp add: p)
  next
    case False
    have "k' \<notin> set (map fst (Map_set k v m))"
      using n False by (simp only: keys_Map_set) simp
    with False Cons.IH[OF d] show ?thesis by (simp add: p)
  qed
qed

lemma Map_set_fresh: "k \<notin> set (map fst m) \<Longrightarrow> Map_set k v m = m @ [(k, v)]"
  by (induction m) auto

lemma Map_set_keyed:
  "(\<forall>(k', v') \<in> set m. k' = f v') \<Longrightarrow> \<forall>(k', v') \<in> set (Map_set (f v) v m). k' = f v'"
proof (induction m)
  case Nil
  show ?case by simp
next
  case (Cons p m)
  obtain k' v' where p: "p = (k', v')" by (cases p)
  from Cons.prems have hd: "k' = f v'" and tl: "\<forall>(k', v') \<in> set m. k' = f v'"
    by (simp_all add: p)
  show ?case
  proof (cases "k' = f v")
    case True
    then show ?thesis using tl by (simp add: p)
  next
    case False
    then show ?thesis using Cons.IH[OF tl] hd by (simp add: p)
  qed
qed

lemma set_all_Nil: "set_all f m [] = m"
  by (simp add: set_all_def)

lemma set_all_Cons: "set_all f m (v # vs) = set_all f (Map_set (f v) v m) vs"
  by (simp add: set_all_def)

lemma new_Map_set_all: "new_Map (map (\<lambda>v. (f v, v)) vs) = set_all f [] vs"
  by (simp add: new_Map_def set_all_def)

lemma distinct_set_all:
  "distinct (map fst m) \<Longrightarrow> distinct (map fst (set_all f m vs))"
  by (induction vs arbitrary: m) (simp_all add: set_all_Nil set_all_Cons distinct_Map_set)

lemma keyed_set_all:
  "(\<forall>(k', v') \<in> set m. k' = f v') \<Longrightarrow> \<forall>(k', v') \<in> set (set_all f m vs). k' = f v'"
proof (induction vs arbitrary: m)
  case Nil
  then show ?case by (simp add: set_all_Nil)
next
  case (Cons v vs)
  show ?case
    unfolding set_all_Cons
    by (rule Cons.IH) (rule Map_set_keyed[OF Cons.prems])
qed

lemma keys_set_all:
  "set (map fst (set_all f m vs)) = set (map fst m) \<union> f ` set vs"
proof (induction vs arbitrary: m)
  case Nil
  show ?case by (simp add: set_all_Nil)
next
  case (Cons v vs)
  show ?case
    unfolding set_all_Cons Cons.IH keys_Map_set by auto
qed

lemma map_of_set_all:
  "map_of (set_all f m vs) u =
     (if filter (\<lambda>v. f v = u) vs = [] then map_of m u
      else Some (last (filter (\<lambda>v. f v = u) vs)))"
proof (induction vs arbitrary: m)
  case Nil
  show ?case by (simp add: set_all_Nil)
next
  case (Cons v vs)
  show ?case
    unfolding set_all_Cons Cons.IH map_of_Map_set by auto
qed

lemma set_all_replay:
  "distinct (map fst (m0 @ m)) \<Longrightarrow> (\<forall>(k', v') \<in> set m. k' = f v') \<Longrightarrow>
   set_all f m0 (map snd m) = m0 @ m"
proof (induction m arbitrary: m0)
  case Nil
  show ?case by (simp add: set_all_Nil)
next
  case (Cons p m)
  obtain k v where p: "p = (k, v)" by (cases p)
  from Cons.prems(2) have kv: "k = f v" and rest: "\<forall>(k', v') \<in> set m. k' = f v'"
    by (simp_all add: p)
  from Cons.prems(1) have fresh: "f v \<notin> set (map fst m0)"
    by (auto simp: p kv)
  have d: "distinct (map fst ((m0 @ [(k, v)]) @ m))"
    using Cons.prems(1) by (simp add: p)
  have "set_all f m0 (map snd (p # m)) = set_all f (m0 @ [(k, v)]) (map snd m)"
    by (simp add: p set_all_Cons Map_set_fresh[OF fresh] kv)
  also have "\<dots> = (m0 @ [(k, v)]) @ m"
    by (rule Cons.IH[OF d rest])
  finally show ?case by (simp add: p)
qed

lemma uniqueCitations_alt: "uniqueCitations cs = map snd (set_all url [] cs)"
  by (simp add: uniqueCitations_def Map_values_def new_Map_set_all)

lemma urls_uniqueCitations: "map url (uniqueCitations cs) = map fst (set_all url [] cs)"
proof -
  have "\<forall>(k', v') \<in> set (set_all url [] cs). k' = url v'"
    by (rule keyed_set_all) simp
  then have "map (url \<circ> snd) (set_all url [] cs) = map fst (set_all url [] cs)"
    by (intro map_cong) auto
  then show ?thesis by (simp add: uniqueCitations_alt)
qed

lemma uniqueCitations_idem: "uniqueCitations (uniqueCitations cs) = uniqueCitations cs"
proof -
  have d: "distinct (map fst ([] @ set_all url [] cs))"
    using distinct_set_all[of "[]" url cs] by simp
  have k: "\<forall>(k', v') \<in> set (set_all url [] cs). k' = url v'"
    by (rule keyed_set_all) simp
  have "set_all url [] (map snd (set_all url [] cs)) = [] @ set_all url [] cs"
    by (rule set_all_replay[OF d k])
  then show ?thesis by (simp add: uniqueCitations_alt)
qed

lemma uniqueCitations_distinct: "distinct (map url (uniqueCitations cs))"
  using distinct_set_all[of "[]" url cs] by (simp add: urls_uniqueCitations)

lemma uniqueCitations_urls: "set (map url (uniqueCitations cs)) = set (map url cs)"
  by (simp only: urls_uniqueCitations keys_set_all) simp

lemma uniqueCitations_last:
  assumes "c \<in> set (uniqueCitations cs)"
  shows "c = last (filter (\<lambda>d. url d = url c) cs)"
proof -
  from assms obtain k where mem: "(k, c) \<in> set (set_all url [] cs)"
    by (auto simp: uniqueCitations_alt)
  have "\<forall>(k', v') \<in> set (set_all url [] cs). k' = url v'"
    by (rule keyed_set_all) simp
  with mem have k: "k = url c" by auto
  have "distinct (map fst (set_all url [] cs))"
    using distinct_set_all[of "[]" url cs] by simp
  with mem have look: "map_of (set_all url [] cs) (url c) = Some c"
    by (simp add: k)
  have "url c \<in> set (map fst (set_all url [] cs))"
    using mem k by force
  then have "url c \<in> url ` set cs"
    by (simp only: keys_set_all) simp
  then have "filter (\<lambda>d. url d = url c) cs \<noteq> []"
    by (auto simp: filter_empty_conv)
  with look show ?thesis
    by (simp add: map_of_set_all)
qed

section \<open>Facts about chunk assembly and persistence\<close>

lemma push_citations_eq:
  "push_citations (texts, cits) cs = (texts @ map cit_text cs, cits @ cs)"
  by (induction cs arbitrary: texts cits) auto

lemma build_chunks_eq:
  "build_chunks sd ycs =
     ((if description sd \<noteq> []
       then [''Company: '' @ name sd @ nl @ ''Description: '' @ description sd] else [])
      @ (case metadata_about sd of
           Some a \<Rightarrow> if a \<noteq> [] then [''About: '' @ a] else []
         | None \<Rightarrow> [])
      @ map cit_text ycs,
      (if description sd \<noteq> [] then [synthetic_citation sd] else [])
      @ (case metadata_about sd of
           Some a \<Rightarrow> if a \<noteq> [] then [synthetic_citation sd] else []
         | None \<Rightarrow> [])
      @ ycs)"
  by (auto simp: build_chunks_def Let_def push_citations_eq truthy_str_def or_str_def
           split: option.splits)

lemma build_chunks_lengths:
  "length (fst (build_chunks sd ycs)) = length (snd (build_chunks sd ycs))"
  by (simp add: build_chunks_eq split: option.splits)

lemma records_of_length: "length (records_of rid texts embs cits) = length texts"
  by (simp add: records_of_def)

lemma records_of_nth:
  "i < length texts \<Longrightarrow>
   records_of rid texts embs cits ! i =
     \<lparr>rec_run_id = rid, rec_text = texts ! i, rec_chunk_index = i,
      rec_embedding = at_index embs i,
      rec_citations = (case at_index cits i of Some c \<Rightarrow> [c] | None \<Rightarrow> [])\<rparr>"
  by (simp add: records_of_def nth_enumerate_eq)

lemma those_Some_length: "those xs = Some ys \<Longrightarrow> length ys = length xs"
  by (induction xs arbitrary: ys) (auto split: option.splits)

lemma those_Some_nth: "those xs = Some ys \<Longrightarrow> i < length xs \<Longrightarrow> xs ! i = Some (ys ! i)"
proof (induction xs arbitrary: ys i)
  case Nil
  then show ?case by simp
next
  case (Cons x xs)
  then show ?case by (cases i) (auto split: option.splits)
qed

lemma row_of_record_Some:
  "row_of_record r = Some row \<Longrightarrow>
   row_run_id row = rec_run_id r \<and> row_text row = rec_text r
   \<and> row_chunk_index row = rec_chunk_index r \<and> rec_embedding r = Some (row_embedding row)
   \<and> row_citations row = rec_citations r"
  by (auto simp: row_of_record_def split: option.splits)

lemma insert_insights_cases:
  "supabase_insert_insights e records w = (res, w') \<Longrightarrow>
   (w' = w \<and> res \<noteq> Inr (PgData ()))
   \<or> (\<exists>rows. res = Inr (PgData ()) \<and> those (map row_of_record records) = Some rows
          \<and> w' = w\<lparr>abm_insights := abm_insights w @ rows\<rparr>)"
  by (auto simp: supabase_insert_insights_def split: db_outcome.splits option.splits if_splits)

lemma createAndStoreEmbeddings_ok:
  assumes "createAndStoreEmbeddings e rid texts cits w = (Inr u, w')"
  shows "\<exists>embs rows.
           embeddings_create e (Texts texts) = Inr embs
           \<and> those (map row_of_record (records_of rid texts embs cits)) = Some rows
           \<and> w' = (record_call (InsertInsights (records_of rid texts embs cits))
                     (record_call (EmbeddingsCreate (Texts texts)) w))
                   \<lparr>abm_insights := abm_insights w @ rows\<rparr>"
proof -
  from assms obtain embs where embs: "embeddings_create e (Texts texts) = Inr embs"
    by (auto simp: createAndStoreEmbeddings_def Let_def split: sum.splits)
  let ?w2 = "record_call (InsertInsights (records_of rid texts embs cits))
               (record_call (EmbeddingsCreate (Texts texts)) w)"
  obtain res w3 where ins:
    "supabase_insert_insights e (records_of rid texts embs cits) ?w2 = (res, w3)"
    by (cases "supabase_insert_insights e (records_of rid texts embs cits) ?w2")
  with assms embs have res: "res = Inr (PgData ())" and w3: "w3 = w'"
    by (auto simp: createAndStoreEmbeddings_def Let_def split: sum.splits pg_response.splits)
  from insert_insights_cases[OF ins] res obtain rows where
    "those (map row_of_record (records_of rid texts embs cits)) = Some rows"
    "w3 = ?w2\<lparr>abm_insights := abm_insights ?w2 @ rows\<rparr>"
    by auto
  with embs w3 show ?thesis
    by (auto simp: record_call_def)
qed

lemma records_of_singleton:
  assumes "length texts \<le> length cits" and "r \<in> set (records_of rid texts embs cits)"
  shows "\<exists>c. rec_citations r = [c]"
proof -
  from assms(2) obtain i where i: "i < length texts" and r: "r = records_of rid texts embs cits ! i"
    by (auto simp: in_set_conv_nth records_of_length)
  with assms(1) show ?thesis
    by (simp add: records_of_nth at_index_def)
qed

lemma those_Some_set:
  "those xs = Some ys \<Longrightarrow> y \<in> set ys \<Longrightarrow> Some y \<in> set xs"
proof -
  assume t: "those xs = Some ys" and y: "y \<in> set ys"
  from y obtain i where i: "i < length ys" and yi: "y = ys ! i"
    by (auto simp: in_set_conv_nth)
  from those_Some_length[OF t] i have i': "i < length xs" by simp
  from those_Some_nth[OF t i'] yi have "xs ! i = Some y" by simp
  with i' show ?thesis by (metis nth_mem)
qed

lemma rows_of_records_singleton:
  assumes "length texts \<le> length cits"
      and "those (map row_of_record (records_of rid texts embs cits)) = Some rows"
      and "row \<in> set rows"
  shows "\<exists>c. row_citations row = [c]"
proof -
  from those_Some_set[OF assms(2,3)] obtain r where
    r: "r \<in> set (records_of rid texts embs cits)" and rr: "row_of_record r = Some row"
    by auto
  from records_of_singleton[OF assms(1) r] row_of_record_Some[OF rr] show ?thesis
    by simp
qed

text \<open>What \<open>createAndStoreEmbeddings\<close> does to the world, whatever its outcome.\<close>

lemma createAndStoreEmbeddings_frame:
  assumes "createAndStoreEmbeddings e rid texts cits w = (res, w')"
  shows "abm_runs w' = abm_runs w \<and> run_writes w' = run_writes w
         \<and> (\<exists>rows new.
               abm_insights w' = abm_insights w @ rows
               \<and> calls w' = calls w @ EmbeddingsCreate (Texts texts) # new
               \<and> (new = [] \<and> rows = []
                   \<or> (\<exists>embs. new = [InsertInsights (records_of rid texts embs cits)]
                         \<and> (rows = [] \<or> those (map row_of_record (records_of rid texts embs cits)) = Some rows))))"
proof (cases "embeddings_create e (Texts texts)")
  case (Inl err)
  with assms show ?thesis
    by (auto simp: createAndStoreEmbeddings_def Let_def record_call_def)
next
  case (Inr embs)
  let ?w2 = "record_call (InsertInsights (records_of rid texts embs cits))
               (record_call (EmbeddingsCreate (Texts texts)) w)"
  obtain r3 w3 where ins:
    "supabase_insert_insights e (records_of rid texts embs cits) ?w2 = (r3, w3)"
    by (cases "supabase_insert_insights e (records_of rid texts embs cits) ?w2")
  with assms Inr have w3: "w3 = w'"
    by (auto simp: createAndStoreEmbeddings_def Let_def split: sum.splits pg_response.splits)
  from insert_insights_cases[OF ins] show ?thesis
  proof
    assume "w3 = ?w2 \<and> r3 \<noteq> Inr (PgData ())"
    with w3 show ?thesis
      by (auto simp: record_call_def)
  next
    assume "\<exists>rows. r3 = Inr (PgData ()) \<and> those (map row_of_record (records_of rid texts embs cits)) = Some rows
          \<and> w3 = ?w2\<lparr>abm_insights := abm_insights ?w2 @ rows\<rparr>"
    then obtain rows where
      "those (map row_of_record (records_of rid texts embs cits)) = Some rows"
      "w3 = ?w2\<lparr>abm_insights := abm_insights ?w2 @ rows\<rparr>"
      by blast
    with w3 show ?thesis
      by (auto simp: record_call_def)
  qed
qed

lemma similaritySearch_try_frame:
  assumes "similaritySearch_try e q rid limit w = (res, w')"
  shows "abm_runs w' = abm_runs w \<and> run_writes w' = run_writes w
         \<and> abm_insights w' = abm_insights w
         \<and> (calls w' = calls w @ [RpcMatch q (7 / 10) limit rid]
             \<or> calls w' = calls w @ [RpcMatch q (7 / 10) limit rid, SelectInsights rid limit])"
  using assms
  by (auto simp: similaritySearch_try_def Let_def record_call_def
           split: sum.splits pg_response.splits)

lemma similaritySearch_frame:
  assumes "similaritySearch e q rid limit w = (res, w')"
  shows "abm_runs w' = abm_runs w \<and> run_writes w' = run_writes w
         \<and> abm_insights w' = abm_insights w
         \<and> (calls w' = calls w @ [RpcMatch q (7 / 10) limit rid]
             \<or> calls w' = calls w @ [RpcMatch q (7 / 10) limit rid, SelectInsights rid limit])"
proof -
  obtain r1 w1 where t: "similaritySearch_try e q rid limit w = (r1, w1)"
    by (cases "similaritySearch_try e q rid limit w")
  with assms have "w' = w1"
    by (auto simp: similaritySearch_def split: sum.splits)
  with similaritySearch_try_frame[OF t] show ?thesis by simp
qed


lemma pipeline_after_store:
  assumes "runRAGPipeline_try e rid cn sd ycs w = (res, w')"
      and "build_chunks sd ycs = (texts, cits)" and "texts \<noteq> []"
  shows "\<exists>r1 w1 tail.
           createAndStoreEmbeddings e rid texts cits w = (r1, w1)
           \<and> abm_runs w' = abm_runs w1 \<and> abm_insights w' = abm_insights w1
           \<and> run_writes w' = run_writes w1 \<and> calls w' = calls w1 @ tail
           \<and> (\<forall>recs. InsertInsights recs \<notin> set tail)"
proof -
  obtain r1 w1 where cs: "createAndStoreEmbeddings e rid texts cits w = (r1, w1)"
    by (cases "createAndStoreEmbeddings e rid texts cits w")
  let ?w2 = "record_call (EmbeddingsCreate (OneText (generateRAGContext cn))) w1"
  have "abm_runs w' = abm_runs w1 \<and> abm_insights w' = abm_insights w1
           \<and> run_writes w' = run_writes w1
           \<and> (\<exists>tail. calls w' = calls w1 @ tail \<and> (\<forall>recs. InsertInsights recs \<notin> set tail))"
  proof (cases r1)
    case (Inl err)
    with assms cs have "w' = w1"
      by (simp add: runRAGPipeline_try_def)
    then show ?thesis by simp
  next
    case (Inr u)
    show ?thesis
    proof (cases "embeddings_create e (OneText (generateRAGContext cn))")
      case (Inl err)
      with assms cs Inr have "w' = ?w2"
        by (simp add: runRAGPipeline_try_def Let_def)
      then show ?thesis by (simp add: record_call_def)
    next
      case qs: (Inr qs)
      show ?thesis
      proof (cases qs)
        case Nil
        with assms cs Inr qs have "w' = ?w2"
          by (simp add: runRAGPipeline_try_def Let_def)
        then show ?thesis by (simp add: record_call_def)
      next
        case (Cons q qs')
        obtain r3 w3 where ss: "similaritySearch e q rid 5 ?w2 = (r3, w3)"
          by (cases "similaritySearch e q rid 5 ?w2")
        note f3 = similaritySearch_frame[OF ss]
        have "w' = w3 \<or> (\<exists>p. w' = record_call (ChatCompletion p) w3)"
          using assms cs Inr qs Cons ss
          by (auto simp: runRAGPipeline_try_def Let_def split: sum.splits)
        then show ?thesis
        proof
          assume "w' = w3"
          with f3 show ?thesis by (auto simp: record_call_def)
        next
          assume "\<exists>p. w' = record_call (ChatCompletion p) w3"
          then obtain p where "w' = record_call (ChatCompletion p) w3" ..
          with f3 show ?thesis by (auto simp: record_call_def)
        qed
      qed
    qed
  qed
  with cs show ?thesis by blast
qed

lemma pipeline_no_chunks:
  assumes "fst (build_chunks sd ycs) = []"
  shows "runRAGPipeline_try e rid cn sd ycs w = (Inl (Error ''No text chunks to process''), w)"
  using assms by (cases "build_chunks sd ycs") (simp add: runRAGPipeline_try_def)

lemma pipeline_try_frame:
  assumes "runRAGPipeline_try e rid cn sd ycs w = (res, w')"
  shows "abm_runs w' = abm_runs w \<and> run_writes w' = run_writes w
         \<and> (\<exists>rows. abm_insights w' = abm_insights w @ rows
                \<and> (\<forall>row \<in> set rows. \<exists>c. row_citations row = [c]))
         \<and> (\<exists>new. calls w' = calls w @ new
                \<and> (\<forall>recs. InsertInsights recs \<in> set new \<longrightarrow>
                      (\<forall>r \<in> set recs. \<exists>c. rec_citations r = [c])))"
proof -
  obtain texts cits where bc: "build_chunks sd ycs = (texts, cits)"
    by (cases "build_chunks sd ycs")
  have len: "length texts \<le> length cits"
    using build_chunks_lengths[of sd ycs] bc by simp
  show ?thesis
  proof (cases "texts = []")
    case True
    with bc assms have "w' = w"
      using pipeline_no_chunks[of sd ycs e rid cn w] by simp
    then show ?thesis by simp
  next
    case False
    from pipeline_after_store[OF assms bc False] obtain r1 w1 tail where
      cs: "createAndStoreEmbeddings e rid texts cits w = (r1, w1)" and
      same: "abm_runs w' = abm_runs w1" "abm_insights w' = abm_insights w1"
            "run_writes w' = run_writes w1" and
      tail: "calls w' = calls w1 @ tail" "\<forall>recs. InsertInsights recs \<notin> set tail"
      by blast
    from createAndStoreEmbeddings_frame[OF cs] obtain rows new where
      runs: "abm_runs w1 = abm_runs w" "run_writes w1 = run_writes w" and
      rows: "abm_insights w1 = abm_insights w @ rows" and
      new: "calls w1 = calls w @ EmbeddingsCreate (Texts texts) # new" and
      alt: "new = [] \<and> rows = []
            \<or> (\<exists>embs. new = [InsertInsights (records_of rid texts embs cits)]
                  \<and> (rows = [] \<or> those (map row_of_record (records_of rid texts embs cits)) = Some rows))"
      by blast
    have rows_ok: "\<forall>row \<in> set rows. \<exists>c. row_citations row = [c]"
      using alt rows_of_records_singleton[OF len] by auto
    have new_ok: "\<forall>recs. InsertInsights recs \<in> set new \<longrightarrow>
                      (\<forall>r \<in> set recs. \<exists>c. rec_citations r = [c])"
      using alt records_of_singleton[OF len] by auto
    have "calls w' = calls w @ (EmbeddingsCreate (Texts texts) # new @ tail)"
      using tail(1) new by simp
    moreover have "\<forall>recs. InsertInsights recs \<in> set (EmbeddingsCreate (Texts texts) # new @ tail) \<longrightarrow>
                      (\<forall>r \<in> set recs. \<exists>c. rec_citations r = [c])"
      using new_ok tail(2) by auto
    ultimately show ?thesis
      using same runs rows rows_ok by (metis)
  qed
qed

section \<open>Evaluation of the pipeline on concrete inputs\<close>

lemma length_vec1536: "length vec1536 = 1536"
  by (simp add: vec1536_def)

lemma runRAGPipeline_world:
  "runRAGPipeline e rid cn sd ycs w = (ins, w') \<Longrightarrow>
   \<exists>res. runRAGPipeline_try e rid cn sd ycs w = (res, w')"
  by (cases "runRAGPipeline_try e rid cn sd ycs w")
     (auto simp: runRAGPipeline_def split: sum.splits)

lemmas pipeline_eval =
  runRAGPipeline_def runRAGPipeline_try_def build_chunks_def Let_def
  truthy_str_def metadata_about_def createAndStoreEmbeddings_def
  records_of_def at_index_def record_call_def
  supabase_insert_insights_def row_of_record_def length_vec1536
  similaritySearch_def similaritySearch_try_def supabase_rpc_match_def
  supabase_select_insights_def
  match_abm_insights_def chunk_of_match_def chunk_of_row_def str_or_def responseText_def
  or_str_def parse_empty_object_only_def ensure_citations_def citations_missing_def
  get_prop_def set_prop_def allCitations_def uniqueCitations_def new_Map_def Map_values_def
  synthetic_citation_def

section \<open>Facts about the similarity query\<close>

lemma match_abm_insights_rows:
  "match_abm_insights distance q t n rid tbl =
     map (\<lambda>r. \<lparr>m_text = row_text r, m_chunk_index = row_chunk_index r,
                 m_citations = row_citations r,
                 similarity = 1 - distance (row_embedding r) q\<rparr>)
       (matched_rows distance q t n rid tbl)"
  by (simp add: match_abm_insights_def matched_rows_def)

lemma matched_rows_set:
  "r \<in> set (matched_rows distance q t n rid tbl) \<Longrightarrow>
   r \<in> set tbl \<and> (rid = None \<or> Some (row_run_id r) = rid)
   \<and> 1 - distance (row_embedding r) q > t"
  by (auto simp: matched_rows_def dest!: in_set_takeD)

lemma matched_rows_sorted:
  "sorted (map (\<lambda>r. distance (row_embedding r) q) (matched_rows distance q t n rid tbl))"
  unfolding matched_rows_def take_map[symmetric]
  by (rule sorted_wrt_take) (rule sorted_sort_key)

lemma matched_rows_length: "length (matched_rows distance q t n rid tbl) \<le> n"
  by (simp add: matched_rows_def)

lemma similaritySearch_rpc_ok:
  assumes "rpc_match e = DbOk"
  shows "fst (similaritySearch e q rid limit w)
           = Inr (map chunk_of_match
                    (match_abm_insights (cosine_distance e) q (7 / 10) limit (Some rid)
                       (abm_insights w)))"
  using assms
  by (simp add: similaritySearch_def similaritySearch_try_def supabase_rpc_match_def
        Let_def record_call_def)

section \<open>Facts about similaritySearch\<close>

lemma similaritySearch_total:
  "\<exists>chunks w'. similaritySearch e q rid limit w = (Inr chunks, w')"
  by (cases "similaritySearch_try e q rid limit w")
     (auto simp: similaritySearch_def split: sum.splits)








section \<open>Facts about the table of runs\<close>

lemma trigger_n8n_frame:
  "abm_runs (trigger_n8n e v w) = abm_runs w \<and> run_writes (trigger_n8n e v w) = run_writes w
   \<and> abm_insights (trigger_n8n e v w) = abm_insights w"
  by (simp add: trigger_n8n_def record_call_def split: option.splits)

lemma insert_run_cases:
  assumes "supabase_insert_run e c d w = (res, w1)"
  shows "(w1 = w \<and> (\<forall>i. res \<noteq> Inr (PgData i)))
         \<or> (res = Inr (PgData (new_run_id e)) \<and> abm_runs w (new_run_id e) = None
            \<and> w1 = w\<lparr>abm_runs := (abm_runs w)(new_run_id e \<mapsto>
                          \<lparr>run_company = c, run_domain = d, status = Processing,
                           result_json = None\<rparr>),
                      run_writes := run_writes w @ [(new_run_id e, Processing)]\<rparr>)"
  using assms
  by (auto simp: supabase_insert_run_def split: db_outcome.splits if_splits)

lemma update_run_cases:
  assumes "supabase_update_run outcome i st payload w = (res, w')"
  shows "(w' = w \<and> (outcome \<noteq> DbOk \<or> abm_runs w i = None))
         \<or> (\<exists>r. outcome = DbOk \<and> res = Inr (PgData ()) \<and> abm_runs w i = Some r
               \<and> w' = w\<lparr>abm_runs := (abm_runs w)(i \<mapsto>
                            r\<lparr>status := st,
                              result_json := (case payload of None \<Rightarrow> result_json r
                                              | Some p \<Rightarrow> Some p)\<rparr>),
                         run_writes := run_writes w @ [(i, st)]\<rparr>)"
  using assms
  by (auto simp: supabase_update_run_def split: db_outcome.splits option.splits)

lemma update_run_throws:
  "supabase_update_run outcome i st payload w = (Inl err, w') \<Longrightarrow>
   outcome = DbThrows err \<and> w' = w"
  by (auto simp: supabase_update_run_def split: db_outcome.splits option.splits)

lemma runRAGPipeline_frame:
  assumes "runRAGPipeline e rid cn sd ycs w = (ins, w')"
  shows "abm_runs w' = abm_runs w \<and> run_writes w' = run_writes w"
  using runRAGPipeline_world[OF assms] pipeline_try_frame by blast

lemma process_run_runs:
  assumes "process_run e v i w = (res, w')"
  shows "(abm_runs w' = abm_runs w \<and> run_writes w' = run_writes w)
         \<or> (\<exists>r fr b. res = Inr (Success b) \<and> abm_runs w i = Some r
               \<and> abm_runs w' = (abm_runs w)(i \<mapsto> r\<lparr>status := Completed, result_json := Some fr\<rparr>)
               \<and> run_writes w' = run_writes w @ [(i, Completed)])"
proof -
  let ?sd = "scrapeCompany e (v_domain v)"
  let ?yc = "research e (v_company v)"
  obtain ins w1 where p: "runRAGPipeline e i (v_company v) ?sd (citations ?yc) w = (ins, w1)"
    by (cases "runRAGPipeline e i (v_company v) ?sd (citations ?yc) w")
  note f1 = runRAGPipeline_frame[OF p]
  let ?fr = "\<lparr>fr_insights = to_json ins, fr_scraped_data = ?sd,
               fr_you_com_citations = length (citations ?yc)\<rparr>"
  obtain r2 w2 where u:
    "supabase_update_run (runs_update_completed e) i Completed (Some ?fr) w1 = (r2, w2)"
    by (cases "supabase_update_run (runs_update_completed e) i Completed (Some ?fr) w1")
  have w': "w' = w2 \<or> w' = trigger_n8n e v w2"
    using assms p u by (auto simp: process_run_def Let_def split: sum.splits)
  then have same: "abm_runs w' = abm_runs w2 \<and> run_writes w' = run_writes w2"
    using trigger_n8n_frame by auto
  from update_run_cases[OF u] show ?thesis
  proof
    assume "w2 = w1 \<and> (runs_update_completed e \<noteq> DbOk \<or> abm_runs w1 i = None)"
    with same f1 show ?thesis by simp
  next
    assume "\<exists>r. runs_update_completed e = DbOk \<and> r2 = Inr (PgData ()) \<and> abm_runs w1 i = Some r
               \<and> w2 = w1\<lparr>abm_runs := (abm_runs w1)(i \<mapsto>
                            r\<lparr>status := Completed,
                              result_json := (case Some ?fr of None \<Rightarrow> result_json r
                                              | Some p \<Rightarrow> Some p)\<rparr>),
                         run_writes := run_writes w1 @ [(i, Completed)]\<rparr>"
    then obtain r where r: "r2 = Inr (PgData ())" "abm_runs w1 i = Some r"
      "w2 = w1\<lparr>abm_runs := (abm_runs w1)(i \<mapsto> r\<lparr>status := Completed, result_json := Some ?fr\<rparr>),
                run_writes := run_writes w1 @ [(i, Completed)]\<rparr>"
      by auto
    have "\<exists>b. res = Inr (Success b)"
      using assms p u r(1) by (auto simp: process_run_def Let_def)
    with r same f1 show ?thesis by auto
  qed
qed

lemma process_run_throws:
  assumes "process_run e v i w = (Inl err, w')"
  shows "runs_update_completed e = DbThrows err
         \<and> abm_runs w' = abm_runs w \<and> run_writes w' = run_writes w"
proof -
  let ?sd = "scrapeCompany e (v_domain v)"
  let ?yc = "research e (v_company v)"
  obtain ins w1 where p: "runRAGPipeline e i (v_company v) ?sd (citations ?yc) w = (ins, w1)"
    by (cases "runRAGPipeline e i (v_company v) ?sd (citations ?yc) w")
  note f1 = runRAGPipeline_frame[OF p]
  let ?fr = "\<lparr>fr_insights = to_json ins, fr_scraped_data = ?sd,
               fr_you_com_citations = length (citations ?yc)\<rparr>"
  have "supabase_update_run (runs_update_completed e) i Completed (Some ?fr) w1 = (Inl err, w')"
    using assms p by (auto simp: process_run_def Let_def split: sum.splits prod.splits)
  from update_run_throws[OF this] f1 show ?thesis by simp
qed

lemma POST_runs:
  assumes "POST e body w = (resp, w')"
  shows "(abm_runs w' = abm_runs w \<and> run_writes w' = run_writes w)
         \<or> (abm_runs w (new_run_id e) = None
            \<and> (\<exists>c d.
                  (abm_runs w' = (abm_runs w)(new_run_id e \<mapsto> fresh_row c d)
                   \<and> run_writes w' = run_writes w @ [(new_run_id e, Processing)])
                  \<or> (\<exists>fr. abm_runs w' = (abm_runs w)(new_run_id e \<mapsto>
                                   (fresh_row c d)\<lparr>status := Completed, result_json := Some fr\<rparr>)
                        \<and> run_writes w' = run_writes w
                              @ [(new_run_id e, Processing), (new_run_id e, Completed)])
                  \<or> (abm_runs w' = (abm_runs w)(new_run_id e \<mapsto>
                                   (fresh_row c d)\<lparr>status := Failed\<rparr>)
                        \<and> run_writes w' = run_writes w
                              @ [(new_run_id e, Processing), (new_run_id e, Failed)])))"
proof (cases body)
  case (Inl err)
  with assms show ?thesis by (simp add: POST_def)
next
  case (Inr j)
  show ?thesis
  proof (cases "requestSchema_parse j")
    case (Inl issues)
    with assms Inr show ?thesis by (simp add: POST_def)
  next
    case v: (Inr v)
    obtain r1 w1 where ins: "supabase_insert_run e (v_company v) (v_domain v) w = (r1, w1)"
      by (cases "supabase_insert_run e (v_company v) (v_domain v) w")
    from insert_run_cases[OF ins] show ?thesis
    proof
      assume a: "w1 = w \<and> (\<forall>i. r1 \<noteq> Inr (PgData i))"
      then have "w' = w"
        using assms Inr v ins
        by (auto simp: POST_def split: sum.splits pg_response.splits)
      then show ?thesis by simp
    next
      let ?i = "new_run_id e"
      let ?row = "fresh_row (v_company v) (v_domain v)"
      assume a: "r1 = Inr (PgData ?i) \<and> abm_runs w ?i = None
            \<and> w1 = w\<lparr>abm_runs := (abm_runs w)(?i \<mapsto>
                          \<lparr>run_company = v_company v, run_domain = v_domain v,
                           status = Processing, result_json = None\<rparr>),
                      run_writes := run_writes w @ [(?i, Processing)]\<rparr>"
      then have r1: "r1 = Inr (PgData ?i)" and fresh: "abm_runs w ?i = None"
        and runs1: "abm_runs w1 = (abm_runs w)(?i \<mapsto> ?row)"
        and writes1: "run_writes w1 = run_writes w @ [(?i, Processing)]"
        by (simp_all add: fresh_row_def)
      obtain r2 w2 where pr: "process_run e v ?i w1 = (r2, w2)"
        by (cases "process_run e v ?i w1")
      have "(abm_runs w' = abm_runs w1 \<and> run_writes w' = run_writes w1)
            \<or> (\<exists>fr. abm_runs w' = (abm_runs w1)(?i \<mapsto> ?row\<lparr>status := Completed, result_json := Some fr\<rparr>)
                  \<and> run_writes w' = run_writes w1 @ [(?i, Completed)])
            \<or> (abm_runs w' = (abm_runs w1)(?i \<mapsto> ?row\<lparr>status := Failed\<rparr>)
                  \<and> run_writes w' = run_writes w1 @ [(?i, Failed)])"
      proof (cases r2)
        case ok: (Inr resp2)
        with assms Inr v ins r1 pr have "w' = w2"
          by (simp add: POST_def)
        with process_run_runs[OF pr] runs1 show ?thesis by auto
      next
        case thrown: (Inl err)
        from process_run_throws[OF pr[unfolded thrown]]
        have same2: "abm_runs w2 = abm_runs w1" "run_writes w2 = run_writes w1" by simp_all
        obtain r3 w3 where up:
          "supabase_update_run (runs_update_failed e) ?i Failed None w2 = (r3, w3)"
          by (cases "supabase_update_run (runs_update_failed e) ?i Failed None w2")
        have "w' = w3"
          using assms Inr v ins r1 pr thrown up
          by (auto simp: POST_def split: sum.splits)
        with update_run_cases[OF up] same2 runs1 show ?thesis
          by auto
      qed
      with fresh runs1 writes1 show ?thesis
        by (auto simp: fun_upd_twist)
    qed
  qed
qed

lemma POST_keeps_existing_runs:
  assumes "abm_runs w i = Some r"
  shows "abm_runs (snd (POST e body w)) i = Some r"
proof -
  obtain resp w' where p: "POST e body w = (resp, w')"
    by (cases "POST e body w")
  from POST_runs[OF p] assms show ?thesis
    unfolding p by (cases "i = new_run_id e") auto
qed

lemma status_history_append:
  "run_writes w' = run_writes w @ extra \<Longrightarrow>
   status_history w' i = status_history w i @ map snd (filter (\<lambda>p. fst p = i) extra)"
  by (simp add: status_history_def)

lemma POST_store_ok:
  assumes "store_ok w"
  shows "store_ok (snd (POST e body w))"
proof -
  obtain resp w' where p: "POST e body w = (resp, w')"
    by (cases "POST e body w")
  have "run_ok w' j" for j
  proof -
    have okj: "run_ok w j" using assms by (simp add: store_ok_def)
    from POST_runs[OF p] show ?thesis
    proof
      assume "abm_runs w' = abm_runs w \<and> run_writes w' = run_writes w"
      then have "abm_runs w' j = abm_runs w j \<and> status_history w' j = status_history w j"
        by (simp add: status_history_def)
      with okj show ?thesis by (simp add: run_ok_def split: option.splits)
    next
      let ?i = "new_run_id e"
      assume a: "abm_runs w ?i = None
            \<and> (\<exists>c d.
                  (abm_runs w' = (abm_runs w)(?i \<mapsto> fresh_row c d)
                   \<and> run_writes w' = run_writes w @ [(?i, Processing)])
                  \<or> (\<exists>fr. abm_runs w' = (abm_runs w)(?i \<mapsto>
                                   (fresh_row c d)\<lparr>status := Completed, result_json := Some fr\<rparr>)
                        \<and> run_writes w' = run_writes w @ [(?i, Processing), (?i, Completed)])
                  \<or> (abm_runs w' = (abm_runs w)(?i \<mapsto> (fresh_row c d)\<lparr>status := Failed\<rparr>)
                        \<and> run_writes w' = run_writes w @ [(?i, Processing), (?i, Failed)]))"
      then have fresh: "abm_runs w ?i = None" by simp
      have "run_ok w ?i" using assms by (simp add: store_ok_def)
      with fresh have h0: "status_history w ?i = []" by (simp add: run_ok_def)
      show ?thesis
      proof (cases "j = ?i")
        case True
        from a h0 show ?thesis
          unfolding True
          by (auto simp: run_ok_def legal_history_def fresh_row_def
                dest!: status_history_append[where i = "?i"])
      next
        case False
        from a have "abm_runs w' j = abm_runs w j \<and> status_history w' j = status_history w j"
          using False by (auto dest!: status_history_append[where i = j])
        with okj show ?thesis by (simp add: run_ok_def split: option.splits)
      qed
    qed
  qed
  then show ?thesis by (simp add: store_ok_def p)
qed

lemma serve_store_ok: "store_ok w \<Longrightarrow> store_ok (serve requests w)"
proof (induction requests arbitrary: w)
  case Nil
  then show ?case by simp
next
  case (Cons rq requests)
  obtain e body where rq: "rq = (e, body)" by (cases rq)
  from Cons.prems have "store_ok (snd (POST e body w))" by (rule POST_store_ok)
  then show ?case unfolding rq by (simp add: Cons.IH)
qed

lemma serve_keeps_existing_runs:
  "abm_runs w i = Some r \<Longrightarrow> abm_runs (serve requests w) i = Some r"
proof (induction requests arbitrary: w)
  case Nil
  then show ?case by simp
next
  case (Cons rq requests)
  obtain e body where rq: "rq = (e, body)" by (cases rq)
  from Cons.prems have "abm_runs (snd (POST e body w)) i = Some r"
    by (rule POST_keeps_existing_runs)
  then show ?case unfolding rq by (simp add: Cons.IH)
qed

lemma empty_world_ok: "store_ok empty_world"
  by (simp add: store_ok_def run_ok_def empty_world_def status_history_def)

lemmas handler_eval =
  POST_def process_run_def research_def fetchExpressResearch_def fetchCitedResearch_def
  scrapeCompany_def scrape_fallback_def trigger_n8n_def requestSchema_parse_def
  string_min1_issues_def optional_boolean_issues_def supabase_insert_run_def
  supabase_update_run_def startsWith_def clean_domain_def strip_protocol_def strip_www_def
  split0_def fallback_insights_def acme_request_def empty_world_def

section \<open>Facts about the result of the pipeline and of the handler\<close>

lemma ensure_citations_has_citations: "has_prop (ensure_citations u parsed) ''citations''"
  by (auto simp: ensure_citations_def citations_missing_def has_prop_def get_prop_def
        set_prop_def map_of_Map_set split: option.splits)

lemma ensure_citations_other:
  "k \<noteq> ''citations'' \<Longrightarrow> has_prop (ensure_citations u parsed) k = has_prop parsed k"
  by (simp add: ensure_citations_def has_prop_def get_prop_def set_prop_def map_of_Map_set)

lemma ensure_citations_all_fields:
  "has_all_insights_fields (JObj (ensure_citations u parsed))
     = (has_prop parsed ''insights'' \<and> has_prop parsed ''email_subject''
        \<and> has_prop parsed ''email_body'')"
  by (simp add: has_all_insights_fields_def ensure_citations_has_citations
        ensure_citations_other)

lemma fallback_all_fields: "has_all_insights_fields (JObj (fallback_insights sd ycs))"
  by (simp add: has_all_insights_fields_def fallback_insights_def has_prop_def get_prop_def)

lemma pipeline_catch:
  "runRAGPipeline_try e rid cn sd ycs w = (Inl err, w1) \<Longrightarrow>
   runRAGPipeline e rid cn sd ycs w = (ObjectValue (fallback_insights sd ycs), w1)"
  by (simp add: runRAGPipeline_def)




lemma pipeline_query_embedding_fails:
  assumes "embeddings_create e (OneText (generateRAGContext cn)) = Inl err"
  shows "\<exists>err' w2. runRAGPipeline_try e rid cn sd ycs w = (Inl err', w2)"
  using assms
  by (cases "build_chunks sd ycs")
     (auto simp: runRAGPipeline_try_def Let_def split: prod.splits sum.splits)

lemma pipeline_embedder_down:
  assumes "\<forall>input. \<exists>err. embeddings_create e input = Inl err"
  shows "\<exists>err' w2. runRAGPipeline_try e rid cn sd ycs w = (Inl err', w2)"
  using assms pipeline_query_embedding_fails by blast

lemma assign_citations_primitive:
  assumes "\<forall>xs. parsed \<noteq> JArr xs" and "\<forall>ob. parsed \<noteq> JObj ob"
  shows "\<exists>err. assign_citations u parsed = Inl err"
  using assms by (cases parsed) simp_all

lemma pipeline_from_generation:
  assumes "reaches_generation e rid cn sd ycs w chunks w3"
  shows "runRAGPipeline_try e rid cn sd ycs w
           = (case chat_completions_create e (insights_prompt cn sd chunks) of
                Inl err \<Rightarrow> Inl err
              | Inr choices \<Rightarrow>
                  (case JSON_parse e (responseText choices) of
                     Inl err \<Rightarrow> Inl err
                   | Inr parsed \<Rightarrow>
                       assign_citations (uniqueCitations (allCitations chunks)) parsed),
              record_call (ChatCompletion (insights_prompt cn sd chunks)) w3)"
  using assms
  by (auto simp: reaches_generation_def runRAGPipeline_try_def Let_def
        split: prod.splits sum.splits list.splits)

lemma pipeline_before_generation:
  assumes "\<not> (\<exists>chunks w3. reaches_generation e rid cn sd ycs w chunks w3)"
  shows "\<exists>err w2. runRAGPipeline_try e rid cn sd ycs w = (Inl err, w2)"
proof -
  obtain texts cits where bc: "build_chunks sd ycs = (texts, cits)"
    by (cases "build_chunks sd ycs")
  show ?thesis
  proof (cases "texts = []")
    case True
    with bc pipeline_no_chunks[of sd ycs e rid cn w] show ?thesis by simp
  next
    case ne: False
    obtain r1 w1 where cs: "createAndStoreEmbeddings e rid texts cits w = (r1, w1)"
      by (cases "createAndStoreEmbeddings e rid texts cits w")
    show ?thesis
    proof (cases r1)
      case (Inl err)
      with bc ne cs show ?thesis by (simp add: runRAGPipeline_try_def)
    next
      case (Inr u)
      let ?w2 = "record_call (EmbeddingsCreate (OneText (generateRAGContext cn))) w1"
      show ?thesis
      proof (cases "embeddings_create e (OneText (generateRAGContext cn))")
        case (Inl err)
        with bc ne cs Inr show ?thesis by (simp add: runRAGPipeline_try_def Let_def)
      next
        case qs: (Inr qs)
        show ?thesis
        proof (cases qs)
          case Nil
          with bc ne cs Inr qs show ?thesis by (simp add: runRAGPipeline_try_def Let_def)
        next
          case (Cons q qs')
          from similaritySearch_total[of e q rid 5 ?w2] obtain chunks w3 where
            "similaritySearch e q rid 5 ?w2 = (Inr chunks, w3)" by blast
          with bc ne cs Inr qs Cons have "reaches_generation e rid cn sd ycs w chunks w3"
            by (simp add: reaches_generation_def)
          with assms show ?thesis by blast
        qed
      qed
    qed
  qed
qed


lemma pipeline_generation_throws:
  assumes "reaches_generation e rid cn sd ycs w chunks w3"
      and "chat_completions_create e (insights_prompt cn sd chunks) = Inl err"
  shows "runRAGPipeline e rid cn sd ycs w
           = (ObjectValue (fallback_insights sd ycs),
              record_call (ChatCompletion (insights_prompt cn sd chunks)) w3)"
  by (simp add: runRAGPipeline_def pipeline_from_generation[OF assms(1)] assms(2))

lemma pipeline_parse_throws:
  assumes "reaches_generation e rid cn sd ycs w chunks w3"
      and "chat_completions_create e (insights_prompt cn sd chunks) = Inr choices"
      and "JSON_parse e (responseText choices) = Inl err"
  shows "runRAGPipeline e rid cn sd ycs w
           = (ObjectValue (fallback_insights sd ycs),
              record_call (ChatCompletion (insights_prompt cn sd chunks)) w3)"
  by (simp add: runRAGPipeline_def pipeline_from_generation[OF assms(1)] assms(2,3))

lemma pipeline_assignment_throws:
  assumes "reaches_generation e rid cn sd ycs w chunks w3"
      and "chat_completions_create e (insights_prompt cn sd chunks) = Inr choices"
      and "JSON_parse e (responseText choices) = Inr parsed"
      and "assign_citations (uniqueCitations (allCitations chunks)) parsed = Inl err"
  shows "runRAGPipeline e rid cn sd ycs w
           = (ObjectValue (fallback_insights sd ycs),
              record_call (ChatCompletion (insights_prompt cn sd chunks)) w3)"
  by (simp add: runRAGPipeline_def pipeline_from_generation[OF assms(1)] assms(2,3,4))

lemma pipeline_generated:
  assumes "reaches_generation e rid cn sd ycs w chunks w3"
      and "chat_completions_create e (insights_prompt cn sd chunks) = Inr choices"
      and "JSON_parse e (responseText choices) = Inr parsed"
      and "assign_citations (uniqueCitations (allCitations chunks)) parsed = Inr v"
  shows "runRAGPipeline e rid cn sd ycs w
           = (v, record_call (ChatCompletion (insights_prompt cn sd chunks)) w3)"
  by (simp add: runRAGPipeline_def pipeline_from_generation[OF assms(1)] assms(2,3,4))

lemma reaches_generation_cong:
  assumes "embeddings_create e' = embeddings_create e"
      and "insights_insert e' = insights_insert e"
      and "rpc_match e' = rpc_match e"
      and "insights_select e' = insights_select e"
      and "cosine_distance e' = cosine_distance e"
  shows "reaches_generation e' rid cn sd ycs w chunks w3
           = reaches_generation e rid cn sd ycs w chunks w3"
  unfolding reaches_generation_def createAndStoreEmbeddings_def
    supabase_insert_insights_def similaritySearch_def similaritySearch_try_def
    supabase_rpc_match_def supabase_select_insights_def assms
  by (rule refl)

lemma requestSchema_parse_nonempty:
  "requestSchema_parse body = Inr v \<Longrightarrow> v_company v \<noteq> [] \<and> v_domain v \<noteq> []"
  by (auto simp: requestSchema_parse_def Let_def string_min1_issues_def
        split: json.splits option.splits if_splits)

lemma POST_created:
  assumes "requestSchema_parse body = Inr v"
      and "supabase_insert_run e (v_company v) (v_domain v) w = (Inr (PgData runId), w1)"
  shows "POST e (Inr body) w =
           (case process_run e v runId w1 of
              (Inr resp, w2) \<Rightarrow> (resp, w2)
            | (Inl err, w2) \<Rightarrow>
                (case supabase_update_run (runs_update_failed e) runId Failed None w2 of
                   (Inl err', w3) \<Rightarrow> (InternalServerError, w3)
                 | (Inr u, w3) \<Rightarrow> (FailedToProcess (error_details err) runId, w3)))"
  using assms by (simp add: POST_def)

lemma insert_run_created:
  assumes "supabase_insert_run e c d w = (Inr (PgData runId), w1)"
  shows "runId = new_run_id e \<and> abm_runs w1 runId = Some (fresh_row c d)"
  using insert_run_cases[OF assms] by (auto simp: fresh_row_def)

lemma process_run_result:
  assumes "runRAGPipeline e runId (v_company v) (scrapeCompany e (v_domain v))
             (citations (research e (v_company v))) w1 = (ins, w2)"
  shows "process_run e v runId w1 =
           (case supabase_update_run (runs_update_completed e) runId Completed
                   (Some \<lparr>fr_insights = to_json ins,
                          fr_scraped_data = scrapeCompany e (v_domain v),
                          fr_you_com_citations = length (citations (research e (v_company v)))\<rparr>)
                   w2 of
              (Inl err, w3) \<Rightarrow> (Inl err, w3)
            | (Inr u, w3) \<Rightarrow>
                (Inr (Success \<lparr>res_run_id = runId, res_company = v_company v,
                                res_domain = v_domain v, res_insights = to_json ins,
                                res_scraped_data = scrapeCompany e (v_domain v),
                                res_you_com_citations =
                                  length (citations (research e (v_company v)))\<rparr>),
                 trigger_n8n e v w3))"
  using assms by (simp add: process_run_def Let_def)

lemma update_run_returns:
  assumes "\<forall>err. outcome \<noteq> DbThrows err"
  shows "\<exists>u w'. supabase_update_run outcome i st payload w = (Inr u, w')"
  using assms
  by (cases outcome) (auto simp: supabase_update_run_def split: option.splits)

lemma update_run_applied:
  assumes "abm_runs w i = Some r"
  shows "\<exists>w'. supabase_update_run DbOk i st payload w = (Inr (PgData ()), w')
              \<and> abm_runs w' i = Some (r\<lparr>status := st,
                                         result_json := (case payload of None \<Rightarrow> result_json r
                                                         | Some p \<Rightarrow> Some p)\<rparr>)"
  using assms by (simp add: supabase_update_run_def)

lemma update_run_refused:
  "supabase_update_run (DbError msg) i st payload w = (Inr (PgError msg), w)"
  by (simp add: supabase_update_run_def)

lemma update_run_thrown:
  "supabase_update_run (DbThrows err) i st payload w = (Inl err, w)"
  by (simp add: supabase_update_run_def)

lemma POST_success:
  assumes "requestSchema_parse body = Inr v"
      and "supabase_insert_run e (v_company v) (v_domain v) w = (Inr (PgData runId), w1)"
      and "\<forall>err. runs_update_completed e \<noteq> DbThrows err"
  shows "\<exists>b w'. POST e (Inr body) w = (Success b, w') \<and> res_run_id b = runId
           \<and> res_scraped_data b = scrapeCompany e (v_domain v)
           \<and> res_insights b
               = to_json (fst (runRAGPipeline e runId (v_company v) (scrapeCompany e (v_domain v))
                                 (citations (research e (v_company v))) w1))"
proof -
  let ?sd = "scrapeCompany e (v_domain v)"
  let ?ycs = "citations (research e (v_company v))"
  obtain ins w2 where p: "runRAGPipeline e runId (v_company v) ?sd ?ycs w1 = (ins, w2)"
    by (cases "runRAGPipeline e runId (v_company v) ?sd ?ycs w1")
  let ?fr = "\<lparr>fr_insights = to_json ins, fr_scraped_data = ?sd,
               fr_you_com_citations = length ?ycs\<rparr>"
  from update_run_returns[OF assms(3)] obtain u w3 where
    u: "supabase_update_run (runs_update_completed e) runId Completed (Some ?fr) w2 = (Inr u, w3)"
    by blast
  show ?thesis
    by (simp add: POST_created[OF assms(1,2)] process_run_result[OF p] u p)
qed


lemma POST_exception:
  assumes "requestSchema_parse body = Inr v"
      and "supabase_insert_run e (v_company v) (v_domain v) w = (Inr (PgData runId), w1)"
      and "process_run e v runId w1 = (Inl err, w2)"
  shows "abm_runs w2 runId = Some (fresh_row (v_company v) (v_domain v))
         \<and> POST e (Inr body) w =
             (case supabase_update_run (runs_update_failed e) runId Failed None w2 of
                (Inl err', w3) \<Rightarrow> (InternalServerError, w3)
              | (Inr u, w3) \<Rightarrow> (FailedToProcess (error_details err) runId, w3))"
  using insert_run_created[OF assms(2), THEN conjunct2] process_run_throws[OF assms(3)]
  by (simp add: POST_created[OF assms(1,2)] assms(3))

lemma fallback_result:
  "(\<exists>err w1. runRAGPipeline_try e rid cn sd ycs w = (Inl err, w1)) \<Longrightarrow>
   fst (runRAGPipeline e rid cn sd ycs w) = ObjectValue (fallback_insights sd ycs)"
  using pipeline_catch by fastforce

section \<open>The stages of the pipeline on concrete inputs\<close>


lemma acme_request_parsed:
  "requestSchema_parse acme_request
     = Inr \<lparr>v_company = ''Acme'', v_domain = ''acme.com'', v_send_via_n8n = False\<rparr>"
  by (simp add: requestSchema_parse_def acme_request_def get_prop_def
        string_min1_issues_def optional_boolean_issues_def)

lemma acme_run_inserted:
  assumes "runs_insert e = DbOk" and "new_run_id e = ''run-1''"
  shows "supabase_insert_run e ''Acme'' ''acme.com'' empty_world
           = (Inr (PgData ''run-1''), run1_world)"
  using assms by (simp add: supabase_insert_run_def empty_world_def run1_world_def)


lemma profile_reaches_generation:
  "reaches_generation online_env ''run-1'' ''Acme'' (scrape_fallback ''acme.com'') []
     run1_world [profile_chunk] profile_retrieved"
  by (simp add: reaches_generation_def pipeline_eval handler_eval online_env_def
        offline_env_def run1_world_def profile_chunk_def profile_retrieved_def
        profile_text_def)


lemma profile_citations:
  "map (\<lambda>c. JStr (url c)) (uniqueCitations (allCitations [profile_chunk]))
     = [JStr ''https://acme.com'']"
  by (simp add: uniqueCitations_def allCitations_def new_Map_def Map_values_def
        profile_chunk_def synthetic_citation_def handler_eval)

section \<open>Verified claims\<close>

text \<open>
  C1, as the code has it. For a request that passes validation (company and domain are
  non-empty strings), whose run is created and whose final status update does not throw,
  \<open>POST\<close> returns the success response, and its insights are the serialised result
  of the pipeline. The fallback object has all four fields, and the insights are the
  fallback object when the pipeline fails before the generation call (as it does whenever
  the embedder fails, and therefore when every service fails), when the generation call
  fails, when the text of the completion does not parse, and when it parses to
  \<open>null\<close>, a boolean, a number or a string. When it parses to an object, the insights
  are that object with its citations ensured: they have the field \<open>citations\<close>, and
  they have all four fields exactly when the generated object has \<open>insights\<close>,
  \<open>email_subject\<close> and \<open>email_body\<close>. When it parses to an array, the insights
  are that array, which has none of the four fields.
\<close>

theorem create_run_insights_fields:
  assumes "requestSchema_parse body = Inr v"
      and "supabase_insert_run e (v_company v) (v_domain v) w = (Inr (PgData runId), w1)"
      and "\<forall>err. runs_update_completed e \<noteq> DbThrows err"
      and "sd = scrapeCompany e (v_domain v)"
      and "ycs = citations (research e (v_company v))"
  shows "v_company v \<noteq> [] \<and> v_domain v \<noteq> []
         \<and> has_all_insights_fields (JObj (fallback_insights sd ycs))
         \<and> (\<exists>b w'. POST e (Inr body) w = (Success b, w') \<and> res_run_id b = runId
               \<and> res_insights b = to_json (fst (runRAGPipeline e runId (v_company v) sd ycs w1))
               \<and> (\<not> (\<exists>chunks w3. reaches_generation e runId (v_company v) sd ycs w1 chunks w3)
                    \<longrightarrow> res_insights b = JObj (fallback_insights sd ycs))
               \<and> ((\<forall>input. \<exists>err. embeddings_create e input = Inl err)
                    \<longrightarrow> res_insights b = JObj (fallback_insights sd ycs))
               \<and> (\<forall>chunks w3.
                     reaches_generation e runId (v_company v) sd ycs w1 chunks w3 \<longrightarrow>
                     (\<forall>err. chat_completions_create e (insights_prompt (v_company v) sd chunks)
                               = Inl err \<longrightarrow>
                        res_insights b = JObj (fallback_insights sd ycs))
                     \<and> (\<forall>choices.
                           chat_completions_create e (insights_prompt (v_company v) sd chunks)
                             = Inr choices \<longrightarrow>
                           (\<forall>err. JSON_parse e (responseText choices) = Inl err \<longrightarrow>
                              res_insights b = JObj (fallback_insights sd ycs))
                           \<and> (\<forall>parsed. JSON_parse e (responseText choices) = Inr parsed
                                 \<and> (\<forall>xs. parsed \<noteq> JArr xs) \<and> (\<forall>ob. parsed \<noteq> JObj ob) \<longrightarrow>
                                 res_insights b = JObj (fallback_insights sd ycs))
                           \<and> (\<forall>ob. JSON_parse e (responseText choices) = Inr (JObj ob) \<longrightarrow>
                                 res_insights b
                                   = JObj (ensure_citations
                                             (uniqueCitations (allCitations chunks)) ob)
                                 \<and> json_has_prop (res_insights b) ''citations''
                                 \<and> has_all_insights_fields (res_insights b)
                                     = (has_prop ob ''insights'' \<and> has_prop ob ''email_subject''
                                        \<and> has_prop ob ''email_body''))
                           \<and> (\<forall>xs. JSON_parse e (responseText choices) = Inr (JArr xs) \<longrightarrow>
                                 res_insights b = JArr xs
                                 \<and> \<not> json_has_prop (res_insights b) ''insights''
                                 \<and> \<not> json_has_prop (res_insights b) ''email_subject''
                                 \<and> \<not> json_has_prop (res_insights b) ''email_body''
                                 \<and> \<not> json_has_prop (res_insights b) ''citations''))))"
proof -
  let ?cn = "v_company v"
  let ?res = "fst (runRAGPipeline e runId ?cn sd ycs w1)"
  let ?fb = "JObj (fallback_insights sd ycs)"
  from POST_success[OF assms(1-3)] obtain b w' where
    post: "POST e (Inr body) w = (Success b, w')" and rid: "res_run_id b = runId" and
    ins: "res_insights b = to_json ?res"
    unfolding assms(4,5) by blast
  have before: "res_insights b = ?fb"
    if "\<not> (\<exists>chunks w3. reaches_generation e runId ?cn sd ycs w1 chunks w3)"
    unfolding ins using fallback_result[OF pipeline_before_generation[OF that]] by simp
  have down: "res_insights b = ?fb"
    if "\<forall>input. \<exists>err. embeddings_create e input = Inl err"
    unfolding ins
    using fallback_result[OF pipeline_embedder_down[OF that, of runId ?cn sd ycs w1]] by simp
  have gen_fails: "res_insights b = ?fb"
    if "reaches_generation e runId ?cn sd ycs w1 chunks w3"
      and "chat_completions_create e (insights_prompt ?cn sd chunks) = Inl err"
    for chunks w3 err
    unfolding ins by (simp add: pipeline_generation_throws[OF that])
  have parse_fails: "res_insights b = ?fb"
    if "reaches_generation e runId ?cn sd ycs w1 chunks w3"
      and "chat_completions_create e (insights_prompt ?cn sd chunks) = Inr choices"
      and "JSON_parse e (responseText choices) = Inl err"
    for chunks w3 choices err
    unfolding ins by (simp add: pipeline_parse_throws[OF that])
  have primitive: "res_insights b = ?fb"
    if "reaches_generation e runId ?cn sd ycs w1 chunks w3"
      and "chat_completions_create e (insights_prompt ?cn sd chunks) = Inr choices"
      and "JSON_parse e (responseText choices) = Inr parsed"
      and "\<forall>xs. parsed \<noteq> JArr xs" and "\<forall>ob. parsed \<noteq> JObj ob"
    for chunks w3 choices parsed
  proof -
    from assign_citations_primitive[OF that(4,5)] obtain err where
      "assign_citations (uniqueCitations (allCitations chunks)) parsed = Inl err" by blast
    from pipeline_assignment_throws[OF that(1-3) this] show ?thesis
      unfolding ins by simp
  qed
  have object: "res_insights b = JObj (ensure_citations (uniqueCitations (allCitations chunks)) ob)"
    if "reaches_generation e runId ?cn sd ycs w1 chunks w3"
      and "chat_completions_create e (insights_prompt ?cn sd chunks) = Inr choices"
      and "JSON_parse e (responseText choices) = Inr (JObj ob)"
    for chunks w3 choices ob
    unfolding ins by (simp add: pipeline_generated[OF that] )
  have array: "res_insights b = JArr xs"
    if "reaches_generation e runId ?cn sd ycs w1 chunks w3"
      and "chat_completions_create e (insights_prompt ?cn sd chunks) = Inr choices"
      and "JSON_parse e (responseText choices) = Inr (JArr xs)"
    for chunks w3 choices xs
    unfolding ins by (simp add: pipeline_generated[OF that])
  note ne = requestSchema_parse_nonempty[OF assms(1)]
  show ?thesis
  proof (intro conjI exI[of _ b] exI[of _ w'] allI impI; (elim conjE)?)
    show "v_company v \<noteq> []" using ne by simp
    show "v_domain v \<noteq> []" using ne by simp
    show "has_all_insights_fields ?fb" by (rule fallback_all_fields)
    show "POST e (Inr body) w = (Success b, w')" by (rule post)
    show "res_run_id b = runId" by (rule rid)
    show "res_insights b = to_json ?res" by (rule ins)
  next
    assume "\<not> (\<exists>chunks w3. reaches_generation e runId ?cn sd ycs w1 chunks w3)"
    then show "res_insights b = ?fb" by (rule before)
  next
    assume "\<forall>input. \<exists>err. embeddings_create e input = Inl err"
    then show "res_insights b = ?fb" by (rule down)
  next
    fix chunks w3 err
    assume "reaches_generation e runId ?cn sd ycs w1 chunks w3"
      and "chat_completions_create e (insights_prompt ?cn sd chunks) = Inl err"
    then show "res_insights b = ?fb" by (rule gen_fails)
  next
    fix chunks w3 choices err
    assume "reaches_generation e runId ?cn sd ycs w1 chunks w3"
      and "chat_completions_create e (insights_prompt ?cn sd chunks) = Inr choices"
      and "JSON_parse e (responseText choices) = Inl err"
    then show "res_insights b = ?fb" by (rule parse_fails)
  next
    fix chunks w3 choices parsed
    assume "reaches_generation e runId ?cn sd ycs w1 chunks w3"
      and "chat_completions_create e (insights_prompt ?cn sd chunks) = Inr choices"
      and "JSON_parse e (responseText choices) = Inr parsed"
      and "\<forall>xs. parsed \<noteq> JArr xs" and "\<forall>ob. parsed \<noteq> JObj ob"
    then show "res_insights b = ?fb" by (rule primitive)
  next
    fix chunks w3 choices ob
    assume h: "reaches_generation e runId ?cn sd ycs w1 chunks w3"
      "chat_completions_create e (insights_prompt ?cn sd chunks) = Inr choices"
      "JSON_parse e (responseText choices) = Inr (JObj ob)"
    note o = object[OF h]
    show "res_insights b = JObj (ensure_citations (uniqueCitations (allCitations chunks)) ob)"
      by (rule o)
    show "json_has_prop (res_insights b) ''citations''"
      unfolding o by (simp add: ensure_citations_has_citations)
    show "has_all_insights_fields (res_insights b)
            = (has_prop ob ''insights'' \<and> has_prop ob ''email_subject''
               \<and> has_prop ob ''email_body'')"
      unfolding o by (rule ensure_citations_all_fields)
  next
    fix chunks w3 choices xs
    assume h: "reaches_generation e runId ?cn sd ycs w1 chunks w3"
      "chat_completions_create e (insights_prompt ?cn sd chunks) = Inr choices"
      "JSON_parse e (responseText choices) = Inr (JArr xs)"
    note a = array[OF h]
    show "res_insights b = JArr xs" by (rule a)
    show "\<not> json_has_prop (res_insights b) ''insights''" unfolding a by simp
    show "\<not> json_has_prop (res_insights b) ''email_subject''" unfolding a by simp
    show "\<not> json_has_prop (res_insights b) ''email_body''" unfolding a by simp
    show "\<not> json_has_prop (res_insights b) ''citations''" unfolding a by simp
  qed
qed

text \<open>
  The request of the spec's example in three environments. When the scraper's fetch, the
  research service, the embedder, the vector store and the generation all fail, the
  insights are the fallback object, with all four fields. When every service answers and
  the completion has no content, the text parsed is \<open>{}\<close> and the insights have the
  citations only. When the completion is the text of an array, the insights are that
  array.
\<close>

theorem create_run_insights_fields_witness:
  "(\<exists>b w'. POST offline_env (Inr acme_request) empty_world = (Success b, w')
       \<and> res_run_id b = ''run-1''
       \<and> has_all_insights_fields (res_insights b)
       \<and> res_insights b
           = JObj [(''insights'',
                      JArr [JStr ''Company: acme'', JStr ''Domain: acme.com'',
                            JStr ''Research completed with available data'']),
                   (''email_subject'', JStr ''Opportunity for acme''),
                   (''email_body'',
                      JStr (''Hello acme team,'' @ nl @ nl
                            @ ''I wanted to reach out regarding potential collaboration opportunities.''
                            @ nl @ nl @ ''Best regards'')),
                   (''citations'', JArr [])])
   \<and> (\<exists>b w'. POST online_env (Inr acme_request) empty_world = (Success b, w')
         \<and> res_insights b = JObj [(''citations'', JArr [JStr ''https://acme.com''])]
         \<and> json_has_prop (res_insights b) ''citations''
         \<and> \<not> has_all_insights_fields (res_insights b))
   \<and> (\<exists>b w'. POST array_reply_env (Inr acme_request) empty_world = (Success b, w')
         \<and> res_insights b = JArr [JNum 1, JNum 2]
         \<and> \<not> json_has_prop (res_insights b) ''citations'')"
proof -
  let ?v = "\<lparr>v_company = ''Acme'', v_domain = ''acme.com'', v_send_via_n8n = False\<rparr>"
  let ?sd = "scrape_fallback ''acme.com''"
  let ?prompt = "insights_prompt (v_company ?v) ?sd [profile_chunk]"
  have first: "\<exists>b w'. POST offline_env (Inr acme_request) empty_world = (Success b, w')
       \<and> res_run_id b = ''run-1''
       \<and> has_all_insights_fields (res_insights b)
       \<and> res_insights b
           = JObj [(''insights'',
                      JArr [JStr ''Company: acme'', JStr ''Domain: acme.com'',
                            JStr ''Research completed with available data'']),
                   (''email_subject'', JStr ''Opportunity for acme''),
                   (''email_body'',
                      JStr (''Hello acme team,'' @ nl @ nl
                            @ ''I wanted to reach out regarding potential collaboration opportunities.''
                            @ nl @ nl @ ''Best regards'')),
                   (''citations'', JArr [])]"
  proof -
    have i: "supabase_insert_run offline_env (v_company ?v) (v_domain ?v) empty_world
               = (Inr (PgData ''run-1''), run1_world)"
      using acme_run_inserted[of offline_env] by (simp add: offline_env_def)
    have u: "\<forall>err. runs_update_completed offline_env \<noteq> DbThrows err"
      by (simp add: offline_env_def)
    have d: "\<forall>input. \<exists>err. embeddings_create offline_env input = Inl err"
      by (simp add: offline_env_def)
    have sd: "?sd = scrapeCompany offline_env (v_domain ?v)"
      by (simp add: scrapeCompany_def startsWith_def offline_env_def)
    have ycs: "[] = citations (research offline_env (v_company ?v))"
      by (simp add: handler_eval offline_env_def)
    from create_run_insights_fields[OF acme_request_parsed i u sd ycs] d
    obtain b w' where
      "POST offline_env (Inr acme_request) empty_world = (Success b, w')"
      "res_run_id b = ''run-1''"
      "res_insights b = JObj (fallback_insights ?sd [])"
      "has_all_insights_fields (JObj (fallback_insights ?sd []))"
      by blast
    then show ?thesis
      by (intro exI[of _ b] exI[of _ w']) (simp add: handler_eval)
  qed
  have second: "\<exists>b w'. POST online_env (Inr acme_request) empty_world = (Success b, w')
         \<and> res_insights b = JObj [(''citations'', JArr [JStr ''https://acme.com''])]
         \<and> json_has_prop (res_insights b) ''citations''
         \<and> \<not> has_all_insights_fields (res_insights b)"
  proof -
    have i: "supabase_insert_run online_env (v_company ?v) (v_domain ?v) empty_world
               = (Inr (PgData ''run-1''), run1_world)"
      using acme_run_inserted[of online_env] by (simp add: online_env_def offline_env_def)
    have u: "\<forall>err. runs_update_completed online_env \<noteq> DbThrows err"
      by (simp add: online_env_def offline_env_def)
    have sd: "?sd = scrapeCompany online_env (v_domain ?v)"
      by (simp add: scrapeCompany_def startsWith_def online_env_def offline_env_def)
    have ycs: "[] = citations (research online_env (v_company ?v))"
      by (simp add: handler_eval online_env_def offline_env_def)
    have r: "reaches_generation online_env ''run-1'' (v_company ?v) ?sd [] run1_world
               [profile_chunk] profile_retrieved"
      using profile_reaches_generation by simp
    have c: "chat_completions_create online_env ?prompt = Inr [None]"
      by (simp add: online_env_def)
    have p: "JSON_parse online_env (responseText [None]) = Inr (JObj [])"
      by (simp add: online_env_def offline_env_def responseText_def or_str_def
            parse_empty_object_only_def)
    from create_run_insights_fields[OF acme_request_parsed i u sd ycs] r c p
    obtain b w' where
      "POST online_env (Inr acme_request) empty_world = (Success b, w')"
      "res_insights b
         = JObj (ensure_citations (uniqueCitations (allCitations [profile_chunk])) [])"
      "json_has_prop (res_insights b) ''citations''"
      "has_all_insights_fields (res_insights b)
         = (has_prop [] ''insights'' \<and> has_prop [] ''email_subject''
            \<and> has_prop [] ''email_body'')"
      by blast
    then show ?thesis
      by (intro exI[of _ b] exI[of _ w'])
         (simp add: ensure_citations_def citations_missing_def get_prop_def set_prop_def
            has_prop_def profile_citations)
  qed
  have third: "\<exists>b w'. POST array_reply_env (Inr acme_request) empty_world = (Success b, w')
         \<and> res_insights b = JArr [JNum 1, JNum 2]
         \<and> \<not> json_has_prop (res_insights b) ''citations''"
  proof -
    have i: "supabase_insert_run array_reply_env (v_company ?v) (v_domain ?v) empty_world
               = (Inr (PgData ''run-1''), run1_world)"
      using acme_run_inserted[of array_reply_env]
      by (simp add: array_reply_env_def online_env_def offline_env_def)
    have u: "\<forall>err. runs_update_completed array_reply_env \<noteq> DbThrows err"
      by (simp add: array_reply_env_def online_env_def offline_env_def)
    have sd: "?sd = scrapeCompany array_reply_env (v_domain ?v)"
      by (simp add: scrapeCompany_def startsWith_def array_reply_env_def online_env_def
            offline_env_def)
    have ycs: "[] = citations (research array_reply_env (v_company ?v))"
      by (simp add: handler_eval array_reply_env_def online_env_def offline_env_def)
    have r: "reaches_generation array_reply_env ''run-1'' (v_company ?v) ?sd [] run1_world
               [profile_chunk] profile_retrieved"
      by (subst reaches_generation_cong[where e = online_env])
         (simp_all add: array_reply_env_def profile_reaches_generation)
    have c: "chat_completions_create array_reply_env ?prompt = Inr [Some ''[1, 2]'']"
      by (simp add: array_reply_env_def)
    have p: "JSON_parse array_reply_env (responseText [Some ''[1, 2]''])
               = Inr (JArr [JNum 1, JNum 2])"
      by (simp add: array_reply_env_def responseText_def or_str_def)
    from create_run_insights_fields[OF acme_request_parsed i u sd ycs] r c p
    obtain b w' where
      "POST array_reply_env (Inr acme_request) empty_world = (Success b, w')"
      "res_insights b = JArr [JNum 1, JNum 2]"
      "\<not> json_has_prop (res_insights b) ''citations''"
      by blast
    then show ?thesis by blast
  qed
  from first second third show ?thesis by (intro conjI)
qed

text \<open>
  The property as the spec states it fails: when every service answers and the completion
  has no content, the text parsed is \<open>{}\<close>, and the insights returned have the
  citations and no other field. And when the final status update throws, the response is
  the error response, which has no insights.
\<close>

theorem generation_without_fields_counterexample:
  "requestSchema_parse acme_request
     = Inr \<lparr>v_company = ''Acme'', v_domain = ''acme.com'', v_send_via_n8n = False\<rparr>
   \<and> fst (POST online_env (Inr acme_request) empty_world)
       = Success \<lparr>res_run_id = ''run-1'', res_company = ''Acme'', res_domain = ''acme.com'',
                  res_insights = JObj [(''citations'', JArr [JStr ''https://acme.com''])],
                  res_scraped_data =
                    \<lparr>name = ''acme'', description = ''Company information for acme.com'',
                     domain = ''acme.com'',
                     metadata = Some \<lparr>meta_title = None, meta_keywords = None,
                                        about = None\<rparr>\<rparr>,
                  res_you_com_citations = 0\<rparr>
   \<and> \<not> has_all_insights_fields (JObj [(''citations'', JArr [JStr ''https://acme.com''])])
   \<and> fst (POST update_throws_env (Inr acme_request) empty_world)
       = FailedToProcess ''fetch failed'' ''run-1''"
  by (simp add: handler_eval pipeline_eval online_env_def offline_env_def
        update_throws_env_def error_details_def has_all_insights_fields_def has_prop_def)




text \<open>
  C3. The URL-keyed deduplication of the retrieved chunks' citations is idempotent; its
  result holds exactly one entry for each distinct URL of the input (the URLs of the
  result are pairwise different and are exactly the URLs of the input, compared as exact
  strings); and each surviving entry is the last citation of the input, in iteration
  order, that carries its URL.
\<close>

theorem dedup_idempotent_one_per_url_last_wins:
  "uniqueCitations (uniqueCitations cs) = uniqueCitations cs
   \<and> distinct (map url (uniqueCitations cs))
   \<and> set (map url (uniqueCitations cs)) = set (map url cs)
   \<and> (\<forall>c \<in> set (uniqueCitations cs). c = last (filter (\<lambda>d. url d = url c) cs))"
  using uniqueCitations_idem uniqueCitations_distinct uniqueCitations_urls uniqueCitations_last
  by blast

text \<open>
  The spec's scenario: two citations A and B, in this order, both for
  \<open>https://x.com\<close>, with different snippets. One entry survives, and it is B.
\<close>

theorem dedup_idempotent_one_per_url_last_wins_witness:
  "uniqueCitations
     [\<lparr>cit_text = ''A'', url = ''https://x.com'', title = None\<rparr>,
      \<lparr>cit_text = ''B'', url = ''https://x.com'', title = None\<rparr>]
     = [\<lparr>cit_text = ''B'', url = ''https://x.com'', title = None\<rparr>]
   \<and> \<lparr>cit_text = ''B'', url = ''https://x.com'', title = None\<rparr>
       = last (filter (\<lambda>d. url d = ''https://x.com'')
           [\<lparr>cit_text = ''A'', url = ''https://x.com'', title = None\<rparr>,
            \<lparr>cit_text = ''B'', url = ''https://x.com'', title = None\<rparr>])"
  using dedup_idempotent_one_per_url_last_wins
          [of "[\<lparr>cit_text = ''A'', url = ''https://x.com'', title = None\<rparr>,
                \<lparr>cit_text = ''B'', url = ''https://x.com'', title = None\<rparr>]"]
  by (simp add: uniqueCitations_def new_Map_def Map_values_def)

text \<open>
  C4. Every row that \<open>match_abm_insights\<close> returns for a run comes from a stored row
  of that run and has a similarity, one minus the cosine distance to the query, strictly
  greater than the threshold; with the threshold 0.7 no returned row has similarity
  exactly 0.7. The rows are ordered by ascending distance and are at most
  \<open>match_count\<close>. \<open>similaritySearch\<close> calls the function with threshold 0.7 and
  its limit, which the pipeline sets to 5.
\<close>

theorem similarity_above_threshold_ascending_limited:
  "(\<forall>m \<in> set (match_abm_insights distance q t n (Some rid) tbl).
      similarity m > t
      \<and> (\<exists>r \<in> set tbl. row_run_id r = rid
             \<and> similarity m = 1 - distance (row_embedding r) q
             \<and> m_text m = row_text r \<and> m_citations m = row_citations r))
   \<and> (\<forall>m \<in> set (match_abm_insights distance q (7 / 10) n (Some rid) tbl).
        similarity m \<noteq> 7 / 10)
   \<and> sorted (map (\<lambda>m. 1 - similarity m) (match_abm_insights distance q t n (Some rid) tbl))
   \<and> length (match_abm_insights distance q t n (Some rid) tbl) \<le> n
   \<and> (rpc_match e = DbOk \<longrightarrow>
        fst (similaritySearch e q rid 5 w)
          = Inr (map chunk_of_match
                   (match_abm_insights (cosine_distance e) q (7 / 10) 5 (Some rid)
                      (abm_insights w))))"
proof -
  have a: "\<forall>m \<in> set (match_abm_insights distance q t n (Some rid) tbl).
      similarity m > t
      \<and> (\<exists>r \<in> set tbl. row_run_id r = rid
             \<and> similarity m = 1 - distance (row_embedding r) q
             \<and> m_text m = row_text r \<and> m_citations m = row_citations r)" for t
    unfolding match_abm_insights_rows
    using matched_rows_set[of _ distance q t n "Some rid" tbl] by fastforce
  have b: "\<forall>m \<in> set (match_abm_insights distance q (7 / 10) n (Some rid) tbl).
        similarity m \<noteq> 7 / 10"
    using a[of "7 / 10"] by fastforce
  have "map (\<lambda>m. 1 - similarity m) (match_abm_insights distance q t n (Some rid) tbl)
          = map (\<lambda>r. distance (row_embedding r) q) (matched_rows distance q t n (Some rid) tbl)"
    by (simp add: match_abm_insights_rows comp_def)
  then have c: "sorted (map (\<lambda>m. 1 - similarity m)
                   (match_abm_insights distance q t n (Some rid) tbl))"
    by (simp only: matched_rows_sorted)
  have d: "length (match_abm_insights distance q t n (Some rid) tbl) \<le> n"
    by (simp add: match_abm_insights_rows matched_rows_length)
  from a[of t] b c d similaritySearch_rpc_ok[of e q rid 5 w] show ?thesis
    by blast
qed

text \<open>
  Of the rows at distances 0.3, 0.2 and 0.1, the one at 0.3 has similarity exactly 0.7 and
  is left out; the other two come nearest first; the row of the other run is left out.
\<close>

theorem similarity_above_threshold_ascending_limited_witness:
  "match_abm_insights first_component [] (7 / 10) 5 (Some ''run-1'') three_rows
     = [\<lparr>m_text = ''nearest'', m_chunk_index = 2, m_citations = [], similarity = 9 / 10\<rparr>,
        \<lparr>m_text = ''near'', m_chunk_index = 1, m_citations = [], similarity = 8 / 10\<rparr>]
   \<and> sorted (map (\<lambda>m. 1 - similarity m)
        (match_abm_insights first_component [] (7 / 10) 5 (Some ''run-1'') three_rows))
   \<and> fst (similaritySearch online_env vec1536 ''run-1'' 5 run1_world) = Inr []"
proof -
  have e: "rpc_match online_env = DbOk"
    by (simp add: online_env_def offline_env_def)
  have m: "match_abm_insights (cosine_distance online_env) vec1536 (7 / 10) 5 (Some ''run-1'')
             (abm_insights run1_world) = []"
    by (simp add: match_abm_insights_def run1_world_def)
  from similarity_above_threshold_ascending_limited
         [where distance = first_component and q = "[]" and t = "7 / 10" and n = 5
            and rid = "''run-1''" and tbl = three_rows]
       similarity_above_threshold_ascending_limited
         [where q = vec1536 and rid = "''run-1''" and e = online_env and w = run1_world]
       e m
  show ?thesis
    by (simp add: match_abm_insights_def three_rows_def first_component_def)
qed

text \<open>
  C5, as the code has it. The chunks are, in this order: the chunk of name and
  description with the synthetic citation (empty text, \<open>https://\<close> and the domain, the
  profile's name as title) when the description is not empty; the chunk of the
  \<open>about\<close> text with the same citation when that text is present and not empty; one
  chunk for each external citation, with its own text and itself as citation. When no
  chunk results, the \<open>try\<close> of the pipeline ends with the error
  \<open>No text chunks to process\<close> and the world unchanged: no call has been made.
\<close>

theorem chunk_assembly_order:
  "build_chunks sd ycs =
     ((if description sd \<noteq> []
       then [''Company: '' @ name sd @ nl @ ''Description: '' @ description sd] else [])
      @ (case metadata_about sd of
           Some a \<Rightarrow> if a \<noteq> [] then [''About: '' @ a] else []
         | None \<Rightarrow> [])
      @ map cit_text ycs,
      (if description sd \<noteq> [] then [synthetic_citation sd] else [])
      @ (case metadata_about sd of
           Some a \<Rightarrow> if a \<noteq> [] then [synthetic_citation sd] else []
         | None \<Rightarrow> [])
      @ ycs)
   \<and> synthetic_citation sd
       = \<lparr>cit_text = '''', url = ''https://'' @ domain sd, title = Some (name sd)\<rparr>
   \<and> (fst (build_chunks sd ycs) = [] \<longrightarrow>
        runRAGPipeline_try e runId companyName sd ycs w
          = (Inl (Error ''No text chunks to process''), w))"
  using build_chunks_eq[of sd ycs] pipeline_no_chunks[of sd ycs e runId companyName w]
  by (simp add: synthetic_citation_def)

text \<open>
  A profile with description, about text and one external citation gives three chunks in
  that order; the profile of the spec's example with no citation gives the error, also
  in an environment whose embedder would answer.
\<close>

theorem chunk_assembly_order_witness:
  "build_chunks rocket_profile [no_url_citation] =
     ([''Company: Acme'' @ nl @ ''Description: Rockets'', ''About: We build rockets'',
       ''Acme opened a second plant''],
      [\<lparr>cit_text = '''', url = ''https://acme.com'', title = Some ''Acme''\<rparr>,
       \<lparr>cit_text = '''', url = ''https://acme.com'', title = Some ''Acme''\<rparr>,
       no_url_citation])
   \<and> runRAGPipeline_try online_env ''run-1'' ''Acme'' acme_profile [] run1_world
       = (Inl (Error ''No text chunks to process''), run1_world)"
proof -
  have e: "fst (build_chunks acme_profile []) = []"
    by (simp add: build_chunks_def acme_profile_def metadata_about_def truthy_str_def)
  from chunk_assembly_order[of rocket_profile "[no_url_citation]"]
       chunk_assembly_order[of acme_profile "[]" online_env "''run-1''" "''Acme''" run1_world] e
  show ?thesis
    by (simp add: rocket_profile_def metadata_about_def no_url_citation_def synthetic_citation_def)
qed

text \<open>
  The property as the spec states it fails: for a document with nothing but a heading,
  \<open>scrape_page\<close> returns a profile whose \<open>about\<close> is present and
  empty, and no chunk is built for it.
\<close>

theorem about_present_but_empty_counterexample:
  "scrape_page ''acme.com'' heading_only_page = heading_only_profile
   \<and> metadata_about heading_only_profile = Some ''''
   \<and> build_chunks heading_only_profile [] = ([], [])"
  by (simp add: scrape_page_def heading_only_page_def heading_only_profile_def
        metadata_about_def build_chunks_def truthy_str_def Let_def str_or_def or_str_def
        js_or_def trim_def split0_def clean_domain_def strip_www_def strip_protocol_def
        startsWith_def is_whitespace_def)

text \<open>
  C6, as the code has it. When \<open>createAndStoreEmbeddings\<close> succeeds, it has appended
  one row for each text, in order: the row at position \<open>i\<close> carries the run id, the
  text at \<open>i\<close>, the ordinal index \<open>i\<close>, the vector at position \<open>i\<close> of the
  embedder's response, and as its citations the singleton list of the citation at
  position \<open>i\<close>, whatever the URL of that citation is; the list is empty only when the
  citation list has no entry at \<open>i\<close>.
\<close>
theorem persisted_records_by_position:
  assumes "createAndStoreEmbeddings e runId texts cits w = (Inr u, w')"
  shows "\<exists>embeddings rows.
           embeddings_create e (Texts texts) = Inr embeddings
           \<and> abm_insights w' = abm_insights w @ rows
           \<and> length rows = length texts
           \<and> (\<forall>i < length texts.
                 row_run_id (rows ! i) = runId
                 \<and> row_text (rows ! i) = texts ! i
                 \<and> row_chunk_index (rows ! i) = i
                 \<and> at_index embeddings i = Some (row_embedding (rows ! i))
                 \<and> row_citations (rows ! i)
                     = (if i < length cits then [cits ! i] else []))"
proof -
  from createAndStoreEmbeddings_ok[OF assms] obtain embs rows where
    embs: "embeddings_create e (Texts texts) = Inr embs" and
    rows: "those (map row_of_record (records_of runId texts embs cits)) = Some rows" and
    w': "w' = (record_call (InsertInsights (records_of runId texts embs cits))
                 (record_call (EmbeddingsCreate (Texts texts)) w))
               \<lparr>abm_insights := abm_insights w @ rows\<rparr>"
    by blast
  have len: "length rows = length texts"
    using those_Some_length[OF rows] by (simp add: records_of_length)
  have each: "row_run_id (rows ! i) = runId
                 \<and> row_text (rows ! i) = texts ! i
                 \<and> row_chunk_index (rows ! i) = i
                 \<and> at_index embs i = Some (row_embedding (rows ! i))
                 \<and> row_citations (rows ! i) = (if i < length cits then [cits ! i] else [])"
    if i: "i < length texts" for i
  proof -
    have "map row_of_record (records_of runId texts embs cits) ! i = Some (rows ! i)"
      using those_Some_nth[OF rows] i by (simp add: records_of_length)
    then have "row_of_record (records_of runId texts embs cits ! i) = Some (rows ! i)"
      using i by (simp add: records_of_length)
    from row_of_record_Some[OF this] show ?thesis
      using i by (simp add: records_of_nth at_index_def)
  qed
  from embs len each w' show ?thesis
    by (intro exI[of _ embs] exI[of _ rows]) simp
qed

text \<open>
  Two texts and one citation, whose URL is empty: the first row keeps the citation, the
  second row, for which there is no citation, has none.
\<close>

theorem persisted_records_by_position_witness:
  "createAndStoreEmbeddings online_env ''run-1'' [''alpha'', ''beta'']
       [no_url_citation] run1_world
     = (Inr (),
        run1_world
          \<lparr>abm_insights :=
             [\<lparr>row_run_id = ''run-1'', row_text = ''alpha'', row_chunk_index = 0,
               row_embedding = vec1536, row_citations = [no_url_citation]\<rparr>,
              \<lparr>row_run_id = ''run-1'', row_text = ''beta'', row_chunk_index = 1,
               row_embedding = vec1536, row_citations = []\<rparr>],
           calls :=
             [EmbeddingsCreate (Texts [''alpha'', ''beta'']),
              InsertInsights (records_of ''run-1'' [''alpha'', ''beta''] [vec1536, vec1536]
                                [no_url_citation])]\<rparr>)
   \<and> (\<exists>embeddings rows.
         embeddings_create online_env (Texts [''alpha'', ''beta'']) = Inr embeddings
         \<and> rows = [\<lparr>row_run_id = ''run-1'', row_text = ''alpha'', row_chunk_index = 0,
                     row_embedding = vec1536, row_citations = [no_url_citation]\<rparr>,
                    \<lparr>row_run_id = ''run-1'', row_text = ''beta'', row_chunk_index = 1,
                     row_embedding = vec1536, row_citations = []\<rparr>]
         \<and> length rows = 2
         \<and> row_chunk_index (rows ! 1) = 1
         \<and> at_index embeddings 1 = Some (row_embedding (rows ! 1)))"
proof -
  let ?w = "run1_world
          \<lparr>abm_insights :=
             [\<lparr>row_run_id = ''run-1'', row_text = ''alpha'', row_chunk_index = 0,
               row_embedding = vec1536, row_citations = [no_url_citation]\<rparr>,
              \<lparr>row_run_id = ''run-1'', row_text = ''beta'', row_chunk_index = 1,
               row_embedding = vec1536, row_citations = []\<rparr>],
           calls :=
             [EmbeddingsCreate (Texts [''alpha'', ''beta'']),
              InsertInsights (records_of ''run-1'' [''alpha'', ''beta''] [vec1536, vec1536]
                                [no_url_citation])]\<rparr>"
  have h: "createAndStoreEmbeddings online_env ''run-1'' [''alpha'', ''beta'']
       [no_url_citation] run1_world = (Inr (), ?w)"
    by (simp add: pipeline_eval online_env_def offline_env_def run1_world_def)
  from persisted_records_by_position[OF h] obtain embeddings rows where
    e: "embeddings_create online_env (Texts [''alpha'', ''beta'']) = Inr embeddings" and
    r: "abm_insights ?w = abm_insights run1_world @ rows" and
    l: "length rows = length [''alpha'', ''beta'']" and
    a: "\<forall>i < length [''alpha'', ''beta''].
          row_run_id (rows ! i) = ''run-1''
          \<and> row_text (rows ! i) = [''alpha'', ''beta''] ! i
          \<and> row_chunk_index (rows ! i) = i
          \<and> at_index embeddings i = Some (row_embedding (rows ! i))
          \<and> row_citations (rows ! i) = (if i < length [no_url_citation] then [[no_url_citation] ! i] else [])"
    by blast
  from r have rows: "rows = [\<lparr>row_run_id = ''run-1'', row_text = ''alpha'', row_chunk_index = 0,
                     row_embedding = vec1536, row_citations = [no_url_citation]\<rparr>,
                    \<lparr>row_run_id = ''run-1'', row_text = ''beta'', row_chunk_index = 1,
                     row_embedding = vec1536, row_citations = []\<rparr>]"
    by (simp add: run1_world_def)
  from a have "row_chunk_index (rows ! 1) = 1 \<and> at_index embeddings 1 = Some (row_embedding (rows ! 1))"
    by simp
  with h e rows l show ?thesis by simp
qed

text \<open>
  The property as the spec states it fails: the record of a chunk whose citation has the
  empty URL holds that citation; the code tests the citation, not its URL.
\<close>

theorem citation_without_url_is_kept_counterexample:
  "url no_url_citation = ''''
   \<and> map rec_citations (records_of ''run-1'' [''alpha''] [vec1536] [no_url_citation])
       = [[no_url_citation]]"
  by (simp add: records_of_def at_index_def no_url_citation_def)

text \<open>
  C7. In every store reached from the empty one by any sequence of requests, and after
  every further request, each run is in order: the statuses written for it are
  \<open>Processing\<close>, followed by nothing, by \<open>Completed\<close> or by \<open>Failed\<close>, so that no
  status follows \<open>Completed\<close> or \<open>Failed\<close> and \<open>Processing\<close> is never written
  again; its status is the last one written; and its result is not null exactly when its
  status is \<open>Completed\<close>. A run that exists is not changed by any later request.
\<close>

theorem run_status_lifecycle:
  "store_ok (serve requests empty_world)
   \<and> (store_ok w \<longrightarrow> store_ok (snd (POST e body w)) \<and> store_ok (serve requests w))
   \<and> (\<forall>r. abm_runs w i = Some r \<longrightarrow>
         abm_runs (snd (POST e body w)) i = Some r \<and> abm_runs (serve requests w) i = Some r)
   \<and> (\<forall>r. store_ok w \<and> abm_runs w i = Some r \<longrightarrow>
         (status_history w i = [Processing]
          \<or> status_history w i = [Processing, Completed]
          \<or> status_history w i = [Processing, Failed])
         \<and> status r = last (status_history w i)
         \<and> ((result_json r \<noteq> None) = (status r = Completed)))"
proof -
  have "(status_history w i = [Processing]
          \<or> status_history w i = [Processing, Completed]
          \<or> status_history w i = [Processing, Failed])
         \<and> status r = last (status_history w i)
         \<and> ((result_json r \<noteq> None) = (status r = Completed))"
    if "store_ok w" and "abm_runs w i = Some r" for r
  proof -
    from that(1) have "run_ok w i" by (simp add: store_ok_def)
    with that(2) show ?thesis by (simp add: run_ok_def legal_history_def)
  qed
  then show ?thesis
    using serve_store_ok[OF empty_world_ok, of requests] POST_store_ok[of w e body]
      serve_store_ok[of w requests] POST_keeps_existing_runs[of w i _ e body]
      serve_keeps_existing_runs[of w i _ requests]
    by blast
qed

text \<open>
  A request that completes, and a request whose final update throws: the histories are
  \<open>Processing, Completed\<close> and \<open>Processing, Failed\<close>; the failed run has no
  result, and a later request does not change it.
\<close>

theorem run_status_lifecycle_witness:
  "status_history (serve [(offline_env, Inr acme_request)] empty_world) ''run-1''
     = [Processing, Completed]
   \<and> status_history (serve [(update_throws_env, Inr acme_request)] empty_world) ''run-1''
     = [Processing, Failed]
   \<and> abm_runs (serve [(update_throws_env, Inr acme_request)] empty_world) ''run-1''
     = Some \<lparr>run_company = ''Acme'', run_domain = ''acme.com'', status = Failed,
              result_json = None\<rparr>
   \<and> abm_runs (serve [(offline_env, Inr acme_request)]
                (serve [(update_throws_env, Inr acme_request)] empty_world)) ''run-1''
     = Some \<lparr>run_company = ''Acme'', run_domain = ''acme.com'', status = Failed,
              result_json = None\<rparr>
   \<and> store_ok (serve [(update_throws_env, Inr acme_request)] empty_world)"
proof -
  have a: "status_history (serve [(offline_env, Inr acme_request)] empty_world) ''run-1''
     = [Processing, Completed]"
    by (simp add: handler_eval pipeline_eval offline_env_def status_history_def)
  have b: "status_history (serve [(update_throws_env, Inr acme_request)] empty_world) ''run-1''
     = [Processing, Failed]"
    by (simp add: handler_eval pipeline_eval offline_env_def update_throws_env_def
          status_history_def)
  have c: "abm_runs (serve [(update_throws_env, Inr acme_request)] empty_world) ''run-1''
     = Some \<lparr>run_company = ''Acme'', run_domain = ''acme.com'', status = Failed,
              result_json = None\<rparr>"
    by (simp add: handler_eval pipeline_eval offline_env_def update_throws_env_def)
  from run_status_lifecycle
         [where requests = "[(offline_env, Inr acme_request)]"
            and w = "serve [(update_throws_env, Inr acme_request)] empty_world"
            and i = "''run-1''"] c
  have d: "abm_runs (serve [(offline_env, Inr acme_request)]
                (serve [(update_throws_env, Inr acme_request)] empty_world)) ''run-1''
     = Some \<lparr>run_company = ''Acme'', run_domain = ''acme.com'', status = Failed,
              result_json = None\<rparr>"
    by blast
  from run_status_lifecycle[where requests = "[(update_throws_env, Inr acme_request)]"]
  have e: "store_ok (serve [(update_throws_env, Inr acme_request)] empty_world)"
    by blast
  from a b c d e show ?thesis by blast
qed

text \<open>
  C8, as the code has it. When an exception leaves the inner \<open>try\<close> of \<open>POST\<close>
  after the run was created (it is the exception of the update to \<open>Completed\<close>), the
  response is never the success response with insights. The handler issues the update to
  \<open>Failed\<close>: when it is applied, the run is \<open>Failed\<close>, without result, and the
  response is the error \<open>Failed to process ABM request\<close> with the details and the run
  id; when it is refused, the response is the same and the run stays in
  \<open>Processing\<close>; when it throws, the response is \<open>Internal server error\<close> and the
  run stays in \<open>Processing\<close>.
\<close>

theorem escaping_exception_reports_error:
  assumes "requestSchema_parse body = Inr v"
      and "supabase_insert_run e (v_company v) (v_domain v) w = (Inr (PgData runId), w1)"
      and "process_run e v runId w1 = (Inl err, w2)"
  shows "runs_update_completed e = DbThrows err
         \<and> (\<forall>b. fst (POST e (Inr body) w) \<noteq> Success b)
         \<and> (runs_update_failed e = DbOk \<longrightarrow>
               fst (POST e (Inr body) w) = FailedToProcess (error_details err) runId
               \<and> abm_runs (snd (POST e (Inr body) w)) runId
                   = Some \<lparr>run_company = v_company v, run_domain = v_domain v,
                            status = Failed, result_json = None\<rparr>)
         \<and> (\<forall>msg. runs_update_failed e = DbError msg \<longrightarrow>
               fst (POST e (Inr body) w) = FailedToProcess (error_details err) runId
               \<and> abm_runs (snd (POST e (Inr body) w)) runId
                   = Some \<lparr>run_company = v_company v, run_domain = v_domain v,
                            status = Processing, result_json = None\<rparr>)
         \<and> (\<forall>err'. runs_update_failed e = DbThrows err' \<longrightarrow>
               fst (POST e (Inr body) w) = InternalServerError
               \<and> abm_runs (snd (POST e (Inr body) w)) runId
                   = Some \<lparr>run_company = v_company v, run_domain = v_domain v,
                            status = Processing, result_json = None\<rparr>)"
proof -
  note px = POST_exception[OF assms]
  from px have row: "abm_runs w2 runId = Some (fresh_row (v_company v) (v_domain v))"
    by simp
  from px have post: "POST e (Inr body) w =
             (case supabase_update_run (runs_update_failed e) runId Failed None w2 of
                (Inl err', w3) \<Rightarrow> (InternalServerError, w3)
              | (Inr u, w3) \<Rightarrow> (FailedToProcess (error_details err) runId, w3))"
    by simp
  have c1: "runs_update_completed e = DbThrows err"
    using process_run_throws[OF assms(3)] by simp
  have c2: "fst (POST e (Inr body) w) \<noteq> Success b" for b
    unfolding post by (simp split: prod.splits sum.splits)
  have c3: "fst (POST e (Inr body) w) = FailedToProcess (error_details err) runId
               \<and> abm_runs (snd (POST e (Inr body) w)) runId
                   = Some \<lparr>run_company = v_company v, run_domain = v_domain v,
                            status = Failed, result_json = None\<rparr>"
    if "runs_update_failed e = DbOk"
    using update_run_applied[OF row, of Failed None] that
    unfolding post by (auto simp: fresh_row_def)
  have c4: "fst (POST e (Inr body) w) = FailedToProcess (error_details err) runId
               \<and> abm_runs (snd (POST e (Inr body) w)) runId
                   = Some \<lparr>run_company = v_company v, run_domain = v_domain v,
                            status = Processing, result_json = None\<rparr>"
    if "runs_update_failed e = DbError msg" for msg
    using row that unfolding post by (simp add: update_run_refused fresh_row_def)
  have c5: "fst (POST e (Inr body) w) = InternalServerError
               \<and> abm_runs (snd (POST e (Inr body) w)) runId
                   = Some \<lparr>run_company = v_company v, run_domain = v_domain v,
                            status = Processing, result_json = None\<rparr>"
    if "runs_update_failed e = DbThrows err'" for err'
    using row that unfolding post by (simp add: update_run_thrown fresh_row_def)
  from c1 c2 c3 c4 c5 show ?thesis by blast
qed

text \<open>The request of the example when the update to \<open>Completed\<close> throws.\<close>

theorem escaping_exception_reports_error_witness:
  "fst (POST update_throws_env (Inr acme_request) empty_world)
     = FailedToProcess ''fetch failed'' ''run-1''
   \<and> abm_runs (snd (POST update_throws_env (Inr acme_request) empty_world)) ''run-1''
       = Some \<lparr>run_company = ''Acme'', run_domain = ''acme.com'', status = Failed,
                result_json = None\<rparr>"
proof -
  let ?v = "\<lparr>v_company = ''Acme'', v_domain = ''acme.com'', v_send_via_n8n = False\<rparr>"
  let ?w1 = "empty_world
               \<lparr>abm_runs := [''run-1'' \<mapsto> \<lparr>run_company = ''Acme'', run_domain = ''acme.com'',
                                            status = Processing, result_json = None\<rparr>],
                run_writes := [(''run-1'', Processing)]\<rparr>"
  have p: "requestSchema_parse acme_request = Inr ?v"
    by (simp add: requestSchema_parse_def acme_request_def get_prop_def
          string_min1_issues_def optional_boolean_issues_def)
  have i: "supabase_insert_run update_throws_env (v_company ?v) (v_domain ?v) empty_world
             = (Inr (PgData ''run-1''), ?w1)"
    by (simp add: supabase_insert_run_def update_throws_env_def offline_env_def empty_world_def)
  have "fst (process_run update_throws_env ?v ''run-1'' ?w1) = Inl (Error ''fetch failed'')"
    by (simp add: handler_eval pipeline_eval update_throws_env_def offline_env_def)
  then have t: "process_run update_throws_env ?v ''run-1'' ?w1
                  = (Inl (Error ''fetch failed''),
                     snd (process_run update_throws_env ?v ''run-1'' ?w1))"
    by (metis prod.collapse)
  have f: "runs_update_failed update_throws_env = DbOk"
    by (simp add: update_throws_env_def offline_env_def)
  from escaping_exception_reports_error[OF p i t] f show ?thesis
    by (simp add: error_details_def)
qed

text \<open>
  The property as the spec states it fails: the response to that request is the error
  response, not an object with insights.
\<close>

theorem error_response_instead_of_insights_counterexample:
  "runs_update_completed update_throws_env = DbThrows (Error ''fetch failed'')
   \<and> fst (POST update_throws_env (Inr acme_request) empty_world)
       = FailedToProcess ''fetch failed'' ''run-1''
   \<and> (\<forall>b. fst (POST update_throws_env (Inr acme_request) empty_world) \<noteq> Success b)"
  by (simp add: handler_eval pipeline_eval update_throws_env_def offline_env_def
        error_details_def)



text \<open>
  C10. In \<open>runRAGPipeline\<close> the texts and the citations of the chunks have the same
  length, so the citation at every index of a text is defined; every record that the
  pipeline hands to the insert, and every row that it adds to \<open>abm_insights\<close>, has a
  citation list of exactly one entry, whatever the URL of the citation.
\<close>

theorem lockstep_chunks_singleton_citations:
  assumes "runRAGPipeline e runId companyName sd ycs w = (insights, w')"
  shows "length (fst (build_chunks sd ycs)) = length (snd (build_chunks sd ycs))
         \<and> (\<forall>i < length (fst (build_chunks sd ycs)).
               at_index (snd (build_chunks sd ycs)) i = Some (snd (build_chunks sd ycs) ! i))
         \<and> (\<exists>new. calls w' = calls w @ new
                \<and> (\<forall>recs. InsertInsights recs \<in> set new \<longrightarrow>
                      (\<forall>r \<in> set recs. \<exists>c. rec_citations r = [c])))
         \<and> (\<exists>rows. abm_insights w' = abm_insights w @ rows
                \<and> (\<forall>row \<in> set rows. \<exists>c. row_citations row = [c]))"
proof -
  from runRAGPipeline_world[OF assms] obtain res where
    t: "runRAGPipeline_try e runId companyName sd ycs w = (res, w')" ..
  have "\<forall>i < length (fst (build_chunks sd ycs)).
               at_index (snd (build_chunks sd ycs)) i = Some (snd (build_chunks sd ycs) ! i)"
    using build_chunks_lengths[of sd ycs] by (simp add: at_index_def)
  with pipeline_try_frame[OF t] build_chunks_lengths[of sd ycs] show ?thesis
    by blast
qed

text \<open>An external citation whose URL is the empty string is stored as a singleton, too.\<close>

theorem lockstep_chunks_singleton_citations_witness:
  "url no_url_citation = ''''
   \<and> abm_insights (snd (runRAGPipeline online_env ''run-1'' ''Acme'' acme_profile
                           [no_url_citation] run1_world))
       = [\<lparr>row_run_id = ''run-1'', row_text = ''Acme opened a second plant'',
           row_chunk_index = 0, row_embedding = vec1536,
           row_citations = [no_url_citation]\<rparr>]
   \<and> (\<exists>rows. abm_insights (snd (runRAGPipeline online_env ''run-1'' ''Acme'' acme_profile
                                     [no_url_citation] run1_world))
                 = abm_insights run1_world @ rows
              \<and> (\<forall>row \<in> set rows. \<exists>c. row_citations row = [c]))"
proof -
  obtain ins w' where h:
    "runRAGPipeline online_env ''run-1'' ''Acme'' acme_profile [no_url_citation] run1_world
       = (ins, w')"
    by (cases "runRAGPipeline online_env ''run-1'' ''Acme'' acme_profile [no_url_citation]
                 run1_world")
  have "\<exists>rows. abm_insights w' = abm_insights run1_world @ rows
              \<and> (\<forall>row \<in> set rows. \<exists>c. row_citations row = [c])"
    using lockstep_chunks_singleton_citations[OF h] by blast
  moreover have "abm_insights (snd (runRAGPipeline online_env ''run-1'' ''Acme'' acme_profile
                           [no_url_citation] run1_world))
       = [\<lparr>row_run_id = ''run-1'', row_text = ''Acme opened a second plant'',
           row_chunk_index = 0, row_embedding = vec1536,
           row_citations = [no_url_citation]\<rparr>]"
    by (simp add: pipeline_eval acme_profile_def online_env_def offline_env_def
          run1_world_def no_url_citation_def)
  moreover have "url no_url_citation = ''''"
    by (simp add: no_url_citation_def)
  ultimately show ?thesis
    using h by simp
qed

end
